theory Spec2Isabelle
  imports Complex_Main "HOL-Library.AList"
begin

section \<open>JSON values and Python dictionaries\<close>

text \<open>
  The service keeps its records as the JSON documents of \<^verbatim>\<open>data/products.json\<close>:
  a list of objects. A JSON object is what Python's \<^verbatim>\<open>json.load\<close> returns for it, a
  \<^verbatim>\<open>dict\<close> with string keys in insertion order, written here as an association list
  whose keys are distinct. Numbers carry their exact value (a finite float or an int is
  a rational); the store never computes with them.
\<close>

datatype json =
    JNull
  | JBool bool
  | JNum rat
  | JStr string
  | JArr "json list"
  | JObj "(string \<times> json) list"

type_synonym dict = "(string \<times> json) list"

text \<open>
  Python's \<^verbatim>\<open>==\<close> on such values: numbers by value, with \<^verbatim>\<open>True == 1\<close> and
  \<^verbatim>\<open>False == 0\<close>; lists element by element; dictionaries by key set and values,
  whatever the order of the keys.
\<close>

fun py_eq :: "json \<Rightarrow> json \<Rightarrow> bool"
  and py_eq_list :: "json list \<Rightarrow> json list \<Rightarrow> bool"
  and py_eq_items :: "dict \<Rightarrow> dict \<Rightarrow> bool"
  and py_eq_item :: "string \<Rightarrow> json \<Rightarrow> dict \<Rightarrow> bool"
where
  "py_eq JNull b = (b = JNull)"
| "py_eq (JBool x) b =
     (case b of JBool y \<Rightarrow> x = y | JNum q \<Rightarrow> q = (if x then 1 else 0) | _ \<Rightarrow> False)"
| "py_eq (JNum p) b =
     (case b of JNum q \<Rightarrow> p = q | JBool y \<Rightarrow> p = (if y then 1 else 0) | _ \<Rightarrow> False)"
| "py_eq (JStr s) b = (b = JStr s)"
| "py_eq (JArr xs) b = (case b of JArr ys \<Rightarrow> py_eq_list xs ys | _ \<Rightarrow> False)"
| "py_eq (JObj d) b =
     (case b of JObj e \<Rightarrow> length d = length e \<and> py_eq_items d e | _ \<Rightarrow> False)"
| "py_eq_list [] ys = (ys = [])"
| "py_eq_list (x # xs) ys =
     (case ys of [] \<Rightarrow> False | y # ys' \<Rightarrow> py_eq x y \<and> py_eq_list xs ys')"
| "py_eq_items [] e = True"
| "py_eq_items ((k, v) # d) e = (py_eq_item k v e \<and> py_eq_items d e)"
| "py_eq_item k v [] = False"
| "py_eq_item k v ((k', w) # e) = (if k = k' then py_eq v w else py_eq_item k v e)"

text \<open>\<^verbatim>\<open>d.update(other)\<close>: every item of \<^verbatim>\<open>other\<close> is stored in \<^verbatim>\<open>d\<close>, in order.
  \<^const>\<open>AList.update\<close> is \<^verbatim>\<open>d[k] = v\<close>: an existing key keeps its place, a new key
  goes last.\<close>

fun dict_update :: "dict \<Rightarrow> dict \<Rightarrow> dict" where
  "dict_update d [] = d"
| "dict_update d ((k, v) # other) = dict_update (AList.update k v d) other"

section \<open>Errors\<close>

text \<open>
  An exception is a value. The messages are f-strings; a fragment is literal text or
  the formatted value of an expression, kept as the value itself.
\<close>

datatype frag = Lit string | Fmt json

datatype error =
    ValueError "frag list"
  | KeyError string
  | TypeError
  | AttributeError
  | RequestValidationError "string list list"
  | HTTPException nat "frag list"

section \<open>services/serve\_product.py\<close>

text \<open>
  The state is the file \<^verbatim>\<open>products.json\<close>: absent (\<open>None\<close>) or holding a list of
  records. Every operation returns what the Python returns or raises, and the file as
  it leaves it.
\<close>

type_synonym products_file = "dict list option"

definition load_products :: "products_file \<Rightarrow> dict list" where
  "load_products file = (case file of None \<Rightarrow> [] | Some products \<Rightarrow> products)"

definition get_all_products :: "products_file \<Rightarrow> dict list" where
  "get_all_products file = load_products file"

definition save_products :: "dict list \<Rightarrow> products_file" where
  "save_products products = Some products"

text \<open>\<^verbatim>\<open>any(p["sku"]==product["sku"] for p in products)\<close>: the generator stops at the
  first equal SKU; a record without the key raises \<^verbatim>\<open>KeyError\<close> when it is reached.\<close>

fun any_sku :: "dict \<Rightarrow> dict list \<Rightarrow> error + bool" where
  "any_sku product [] = Inr False"
| "any_sku product (p # products) =
     (case map_of p ''sku'' of
        None \<Rightarrow> Inl (KeyError ''sku'')
      | Some a \<Rightarrow>
          (case map_of product ''sku'' of
             None \<Rightarrow> Inl (KeyError ''sku'')
           | Some b \<Rightarrow> if py_eq a b then Inr True else any_sku product products))"

definition add_product :: "dict \<Rightarrow> products_file \<Rightarrow> (error + dict) \<times> products_file" where
  "add_product product file =
     (let products = get_all_products file in
      case any_sku product products of
        Inl e \<Rightarrow> (Inl e, file)
      | Inr True \<Rightarrow>
          (case map_of product ''sku'' of
             None \<Rightarrow> (Inl (KeyError ''sku''), file)
           | Some sku \<Rightarrow>
               (Inl (ValueError [Lit ''Product with SKU '', Fmt sku, Lit '' already exists.'']),
                file))
      | Inr False \<Rightarrow> (Inr product, save_products (products @ [product])))"

text \<open>The loop of \<^verbatim>\<open>remove_product\<close>: the first record whose \<^verbatim>\<open>id\<close> equals the
  argument is popped. The result is the popped record with the remaining list, or
  \<open>None\<close> when the loop runs to its end.\<close>

fun remove_loop :: "string \<Rightarrow> dict list \<Rightarrow> error + (dict \<times> dict list) option" where
  "remove_loop pid [] = Inr None"
| "remove_loop pid (p # products) =
     (case map_of p ''id'' of
        None \<Rightarrow> Inl (KeyError ''id'')
      | Some v \<Rightarrow>
          if py_eq v (JStr pid) then Inr (Some (p, products))
          else (case remove_loop pid products of
                  Inl e \<Rightarrow> Inl e
                | Inr None \<Rightarrow> Inr None
                | Inr (Some (deleted, rest)) \<Rightarrow> Inr (Some (deleted, p # rest))))"

text \<open>When the loop ends without a match the function falls off its end: Python
  returns \<^verbatim>\<open>None\<close>, and nothing is raised.\<close>

definition remove_product :: "string \<Rightarrow> products_file \<Rightarrow> (error + json) \<times> products_file" where
  "remove_product pid file =
     (case remove_loop pid (get_all_products file) of
        Inl e \<Rightarrow> (Inl e, file)
      | Inr None \<Rightarrow> (Inr JNull, file)
      | Inr (Some (deleted, rest)) \<Rightarrow>
          (Inr (JObj [(''message'', JStr ''Product deleted succesfully''),
                      (''product'', JObj deleted)]),
           save_products rest))"

text \<open>The inner loop of \<^verbatim>\<open>change_product\<close> over \<^verbatim>\<open>update_data.items()\<close>.\<close>

fun merge_items :: "dict \<Rightarrow> dict \<Rightarrow> dict" where
  "merge_items product [] = product"
| "merge_items product ((key, val) # items) =
     (if val = JNull then merge_items product items
      else
        (case (val, map_of product key) of
           (JObj v, Some (JObj pv)) \<Rightarrow>
             merge_items (AList.update key (JObj (dict_update pv v)) product) items
         | _ \<Rightarrow> merge_items (AList.update key val product) items))"

text \<open>The outer loop returns in its first iteration: the record at index 0 is merged,
  written back and returned, and \<^verbatim>\<open>id\<close> is read only by the message of the
  \<^verbatim>\<open>ValueError\<close> raised when there is no record at all.\<close>

definition change_product :: "string \<Rightarrow> dict \<Rightarrow> products_file \<Rightarrow> (error + dict) \<times> products_file" where
  "change_product pid update_data file =
     (case get_all_products file of
        [] \<Rightarrow> (Inl (ValueError [Lit ''Product with id '', Fmt (JStr pid), Lit '' not found.'']), file)
      | product # rest \<Rightarrow>
          (let product' = merge_items product update_data
           in (Inr product', save_products (product' # rest))))"

section \<open>schema/product.py\<close>

subsection \<open>The seller's email domain\<close>

text \<open>\<^verbatim>\<open>value.split("@")\<close>: the pieces of the string between the separators; there is
  always at least one piece.\<close>

fun split_str :: "char \<Rightarrow> string \<Rightarrow> string list" where
  "split_str sep [] = [[]]"
| "split_str sep (c # cs) =
     (if c = sep then [] # split_str sep cs
      else (case split_str sep cs of [] \<Rightarrow> [[c]] | w # ws \<Rightarrow> (c # w) # ws))"

text \<open>The set literal of \<^verbatim>\<open>Seller.validate_seller_email_domain\<close>. Its third line has no
  comma, so Python joins the adjacent literals \<^verbatim>\<open>"dellexclusive.in" "ecommerce.com"\<close>
  into one string.\<close>

definition Seller_allowed_domains :: "string set" where
  "Seller_allowed_domains =
     {''example.com'',
      ''shop.com'',
      ''dellexclusive.in'' @ ''ecommerce.com'',
      ''mistore.in'',
      ''realmeofficial.in'',
      ''applestoreindia.in'',
      ''samsungshop.in'',
      ''oneplusstore.in'',
      ''nokiaofficial.in'',
      ''lgshop.in'',
      ''sonyofficial.in'',
      ''htcofficial.in'',
      ''motorolaofficial.in'',
      ''asusofficial.in'',
      ''dellstore.in'',
      ''hpstore.in'',
      ''lenovostore.in'',
      ''acerstore.in'',
      ''microsoftstore.in'',
      ''xiaomiofficial.in'',
      ''realme.com'',
      ''apple.com'',
      ''samsung.com'',
      ''oneplus.com'',
      ''nokia.com''}"

definition not_allowed :: "string \<Rightarrow> error" where
  "not_allowed domain =
     ValueError [Lit (''Email domain '' @ [CHR 0x27]), Fmt (JStr domain),
                 Lit (CHR 0x27 # '' is not allowed for sellers.'')]"

definition Seller_validate_seller_email_domain :: "string \<Rightarrow> error + string" where
  "Seller_validate_seller_email_domain val =
     (let domain = last (split_str CHR ''@'' val)
      in if domain \<notin> Seller_allowed_domains then Inl (not_allowed domain) else Inr val)"

text \<open>\<^verbatim>\<open>UpdateSeller\<close> repeats the validator with a set literal of its own, written the
  same way. Its \<^verbatim>\<open>email\<close> is optional, and the validator calls \<^verbatim>\<open>split\<close> on whatever it
  is given: on \<^verbatim>\<open>None\<close> that is an \<^verbatim>\<open>AttributeError\<close>.\<close>

definition UpdateSeller_allowed_domains :: "string set" where
  "UpdateSeller_allowed_domains =
     {''example.com'',
      ''shop.com'',
      ''dellexclusive.in'' @ ''ecommerce.com'',
      ''mistore.in'',
      ''realmeofficial.in'',
      ''applestoreindia.in'',
      ''samsungshop.in'',
      ''oneplusstore.in'',
      ''nokiaofficial.in'',
      ''lgshop.in'',
      ''sonyofficial.in'',
      ''htcofficial.in'',
      ''motorolaofficial.in'',
      ''asusofficial.in'',
      ''dellstore.in'',
      ''hpstore.in'',
      ''lenovostore.in'',
      ''acerstore.in'',
      ''microsoftstore.in'',
      ''xiaomiofficial.in'',
      ''realme.com'',
      ''apple.com'',
      ''samsung.com'',
      ''oneplus.com'',
      ''nokia.com''}"

definition UpdateSeller_validate_seller_email_domain :: "string option \<Rightarrow> error + string" where
  "UpdateSeller_validate_seller_email_domain val =
     (case val of
        None \<Rightarrow> Inl AttributeError
      | Some v \<Rightarrow>
          (let domain = last (split_str CHR ''@'' v)
           in if domain \<notin> UpdateSeller_allowed_domains then Inl (not_allowed domain)
              else Inr v))"

subsection \<open>Floats\<close>

text \<open>
  The derived fields are computed with Python floats: a division, a multiplication, a
  subtraction and \<^verbatim>\<open>round(x, 2)\<close>, each rounding its exact result to a binary64 value.
  These four operations are parameters of the embedding: what is proved for every
  \<open>float_ops\<close> holds for whatever they compute. The operations of binary64 arithmetic
  themselves are \<open>binary64_ops\<close>, defined further down.
\<close>

record float_ops =
  f_truediv :: "rat \<Rightarrow> rat \<Rightarrow> rat"
  f_mul :: "rat \<Rightarrow> rat \<Rightarrow> rat"
  f_sub :: "rat \<Rightarrow> rat \<Rightarrow> rat"
  f_round :: "rat \<Rightarrow> int \<Rightarrow> rat"

subsection \<open>The models\<close>

text \<open>
  A record holds the attribute values of a model instance, already of the declared
  Python types: a \<^verbatim>\<open>UUID\<close>, an \<^verbatim>\<open>AnyUrl\<close>, an \<^verbatim>\<open>EmailStr\<close> and a \<^verbatim>\<open>datetime\<close> by the
  string that \<^verbatim>\<open>model_dump(mode="json")\<close> writes for them. The \<^verbatim>\<open>Field\<close> constraints
  and the validators of the classes are the checks below. Strings are ASCII, so
  \<^const>\<open>length\<close> counts what \<^verbatim>\<open>min_length\<close> and \<^verbatim>\<open>max_length\<close> count.
\<close>

record Seller =
  seller_id :: string
  seller_name :: string
  seller_email :: string
  seller_website :: string

record Dimensions_cm =
  dim_length :: rat
  dim_width :: rat
  dim_height :: rat

record Product =
  p_id :: string
  p_sku :: string
  p_name :: string
  p_description :: "string option"
  p_category :: string
  p_brand :: "string option"
  p_price :: rat
  p_currency :: string
  p_discount_percent :: "rat option"
  p_stock :: int
  p_is_active :: bool
  p_rating :: "rat option"
  p_tags :: "string list option"
  p_image_url :: "string option"
  p_dimensions_cm :: Dimensions_cm
  p_seller :: Seller
  p_created_at :: string

text \<open>A field of \<^verbatim>\<open>Update_Product\<close> that has a default is either left out of the
  request (\<open>Unset\<close>, not in \<^verbatim>\<open>model_fields_set\<close>) or given, possibly as \<^verbatim>\<open>null\<close>. The
  fields declared with \<^verbatim>\<open>Field(...)\<close> or without a default are required and always
  given; \<^verbatim>\<open>created_at\<close> has a default factory that cannot be called without
  arguments, so an instance exists only when it was given too.\<close>

datatype 'a field = Unset | Given 'a

record Update_Product =
  u_id :: string
  u_name :: "string option"
  u_description :: "string option field"
  u_category :: "string option"
  u_brand :: "string option field"
  u_price :: "rat option"
  u_currency :: "string option"
  u_discount_percent :: "rat option field"
  u_stock :: "int option"
  u_is_active :: "bool option field"
  u_rating :: "rat option field"
  u_tags :: "string list option field"
  u_image_url :: "string option field"
  u_dimensions_cm :: "Dimensions_cm option"
  u_seller :: "Seller option"
  u_created_at :: "string option"

text \<open>The attribute of a field whose default is \<^verbatim>\<open>None\<close>.\<close>

definition attr :: "'a option field \<Rightarrow> 'a option" where
  "attr f = (case f of Unset \<Rightarrow> None | Given v \<Rightarrow> v)"

subsection \<open>Validation\<close>

text \<open>Each check is the location of a field and whether its value passes the field's
  constraints; the locations of the failed checks make the validation error.\<close>

definition violations :: "(string list \<times> bool) list \<Rightarrow> string list list" where
  "violations checks = map fst (filter (\<lambda>(loc, ok). \<not> ok) checks)"

definition under :: "string \<Rightarrow> (string list \<times> bool) list \<Rightarrow> (string list \<times> bool) list" where
  "under name checks = map (\<lambda>(loc, ok). (name # loc, ok)) checks"

definition opt_ok :: "('a \<Rightarrow> bool) \<Rightarrow> 'a option \<Rightarrow> bool" where
  "opt_ok P v = (case v of None \<Rightarrow> True | Some x \<Rightarrow> P x)"

definition currencies :: "string set" where
  "currencies = {''USD'', ''EUR'', ''INR'', ''GBP''}"

definition Seller_checks :: "Seller \<Rightarrow> (string list \<times> bool) list" where
  "Seller_checks s =
     [([''name''], 1 \<le> length (seller_name s) \<and> length (seller_name s) \<le> 50),
      ([''email''], \<not> isl (Seller_validate_seller_email_domain (seller_email s)))]"

definition Dimensions_cm_checks :: "Dimensions_cm \<Rightarrow> (string list \<times> bool) list" where
  "Dimensions_cm_checks d =
     [([''length''], 0 \<le> dim_length d),
      ([''width''], 0 \<le> dim_width d),
      ([''height''], 0 \<le> dim_height d)]"

definition Product_checks :: "Product \<Rightarrow> (string list \<times> bool) list" where
  "Product_checks self =
     [([''sku''], 8 \<le> length (p_sku self) \<and> length (p_sku self) \<le> 20),
      ([''name''], 1 \<le> length (p_name self) \<and> length (p_name self) \<le> 50),
      ([''description''], opt_ok (\<lambda>s. length s \<le> 500) (p_description self)),
      ([''category''], 1 \<le> length (p_category self) \<and> length (p_category self) \<le> 30),
      ([''brand''], opt_ok (\<lambda>s. length s \<le> 30) (p_brand self)),
      ([''price''], 0 \<le> p_price self),
      ([''currency''], p_currency self \<in> currencies),
      ([''discount_percent''], opt_ok (\<lambda>d. 0 \<le> d) (p_discount_percent self)),
      ([''stock''], 0 \<le> p_stock self),
      ([''rating''], opt_ok (\<lambda>r. 0 \<le> r \<and> r \<le> 5) (p_rating self))]
     @ under ''dimensions_cm'' (Dimensions_cm_checks (p_dimensions_cm self))
     @ under ''seller'' (Seller_checks (p_seller self))"

text \<open>\<^verbatim>\<open>check_discount\<close>, the model validator of both classes, on the value of
  \<^verbatim>\<open>self.discount_percent\<close>: whether it raises.\<close>

definition check_discount :: "rat option \<Rightarrow> bool" where
  "check_discount discount_percent =
     (case discount_percent of None \<Rightarrow> True | Some d \<Rightarrow> 0 \<le> d \<and> d \<le> 100)"

text \<open>The field checks run first; the model validator runs only on an instance whose
  fields all passed.\<close>

definition Product_validate :: "Product \<Rightarrow> error + Product" where
  "Product_validate self =
     (let errors = violations (under ''body'' (Product_checks self))
      in if errors \<noteq> [] then Inl (RequestValidationError errors)
         else if \<not> check_discount (p_discount_percent self)
         then Inl (RequestValidationError [[''body'']])
         else Inr self)"

definition Update_Product_checks :: "Update_Product \<Rightarrow> (string list \<times> bool) list" where
  "Update_Product_checks self =
     [([''name''], opt_ok (\<lambda>s. 1 \<le> length s \<and> length s \<le> 50) (u_name self)),
      ([''description''], opt_ok (\<lambda>s. length s \<le> 500) (attr (u_description self))),
      ([''category''], opt_ok (\<lambda>s. 1 \<le> length s \<and> length s \<le> 30) (u_category self)),
      ([''brand''], opt_ok (\<lambda>s. length s \<le> 30) (attr (u_brand self))),
      ([''price''], opt_ok (\<lambda>p. 0 \<le> p) (u_price self)),
      ([''currency''], opt_ok (\<lambda>c. c \<in> currencies) (u_currency self)),
      ([''discount_percent''], opt_ok (\<lambda>d. 0 \<le> d) (attr (u_discount_percent self))),
      ([''stock''], opt_ok (\<lambda>n. 0 \<le> n) (u_stock self)),
      ([''rating''], opt_ok (\<lambda>r. 0 \<le> r \<and> r \<le> 5) (attr (u_rating self)))]
     @ under ''dimensions_cm''
         (case u_dimensions_cm self of None \<Rightarrow> [] | Some d \<Rightarrow> Dimensions_cm_checks d)
     @ under ''seller'' (case u_seller self of None \<Rightarrow> [] | Some s \<Rightarrow> Seller_checks s)"

definition Update_Product_validate :: "Update_Product \<Rightarrow> error + Update_Product" where
  "Update_Product_validate self =
     (let errors = violations (under ''body'' (Update_Product_checks self))
      in if errors \<noteq> [] then Inl (RequestValidationError errors)
         else if \<not> check_discount (attr (u_discount_percent self))
         then Inl (RequestValidationError [[''body'']])
         else Inr self)"

subsection \<open>Computed fields\<close>

definition Product_discounted_price :: "float_ops \<Rightarrow> Product \<Rightarrow> rat option" where
  "Product_discounted_price fo self =
     (case p_discount_percent self of
        Some discount_percent \<Rightarrow>
          (let discount_amount = f_mul fo (f_truediv fo discount_percent 100) (p_price self)
           in Some (f_round fo (f_sub fo (p_price self) discount_amount) 2))
      | None \<Rightarrow> None)"

definition Product_volume_cm3 :: "float_ops \<Rightarrow> Product \<Rightarrow> rat" where
  "Product_volume_cm3 fo self =
     f_round fo
       (f_mul fo
          (f_mul fo (dim_length (p_dimensions_cm self)) (dim_width (p_dimensions_cm self)))
          (dim_height (p_dimensions_cm self)))
       2"

text \<open>\<^verbatim>\<open>Update_Product\<close> has the same two properties, over attributes that may be
  \<^verbatim>\<open>None\<close>: a float times \<^verbatim>\<open>None\<close> is a \<^verbatim>\<open>TypeError\<close>, and \<^verbatim>\<open>None.length\<close> an
  \<^verbatim>\<open>AttributeError\<close>.\<close>

definition Update_Product_discounted_price :: "float_ops \<Rightarrow> Update_Product \<Rightarrow> error + rat option" where
  "Update_Product_discounted_price fo self =
     (case attr (u_discount_percent self) of
        Some discount_percent \<Rightarrow>
          (case u_price self of
             None \<Rightarrow> Inl TypeError
           | Some price \<Rightarrow>
               (let discount_amount = f_mul fo (f_truediv fo discount_percent 100) price
                in Inr (Some (f_round fo (f_sub fo price discount_amount) 2))))
      | None \<Rightarrow> Inr None)"

definition Update_Product_volume_cm3 :: "float_ops \<Rightarrow> Update_Product \<Rightarrow> error + rat" where
  "Update_Product_volume_cm3 fo self =
     (case u_dimensions_cm self of
        None \<Rightarrow> Inl AttributeError
      | Some d \<Rightarrow>
          Inr (f_round fo (f_mul fo (f_mul fo (dim_length d) (dim_width d)) (dim_height d)) 2))"

subsection \<open>Serialization\<close>

definition json_opt :: "('a \<Rightarrow> json) \<Rightarrow> 'a option \<Rightarrow> json" where
  "json_opt conv v = (case v of None \<Rightarrow> JNull | Some x \<Rightarrow> conv x)"

definition JInt :: "int \<Rightarrow> json" where
  "JInt n = JNum (of_int n)"

definition JTags :: "string list \<Rightarrow> json" where
  "JTags tags = JArr (map JStr tags)"

definition Seller_model_dump :: "Seller \<Rightarrow> dict" where
  "Seller_model_dump s =
     [(''seller_id'', JStr (seller_id s)),
      (''name'', JStr (seller_name s)),
      (''email'', JStr (seller_email s)),
      (''website'', JStr (seller_website s))]"

definition Dimensions_cm_model_dump :: "Dimensions_cm \<Rightarrow> dict" where
  "Dimensions_cm_model_dump d =
     [(''length'', JNum (dim_length d)),
      (''width'', JNum (dim_width d)),
      (''height'', JNum (dim_height d))]"

text \<open>\<^verbatim>\<open>product.model_dump(mode="json")\<close>: every field in the order of the class, then
  the computed fields.\<close>

definition Product_model_dump :: "float_ops \<Rightarrow> Product \<Rightarrow> dict" where
  "Product_model_dump fo self =
     [(''id'', JStr (p_id self)),
      (''sku'', JStr (p_sku self)),
      (''name'', JStr (p_name self)),
      (''description'', json_opt JStr (p_description self)),
      (''category'', JStr (p_category self)),
      (''brand'', json_opt JStr (p_brand self)),
      (''price'', JNum (p_price self)),
      (''currency'', JStr (p_currency self)),
      (''discount_percent'', json_opt JNum (p_discount_percent self)),
      (''stock'', JInt (p_stock self)),
      (''is_active'', JBool (p_is_active self)),
      (''rating'', json_opt JNum (p_rating self)),
      (''tags'', json_opt JTags (p_tags self)),
      (''image_url'', json_opt JStr (p_image_url self)),
      (''dimensions_cm'', JObj (Dimensions_cm_model_dump (p_dimensions_cm self))),
      (''seller'', JObj (Seller_model_dump (p_seller self))),
      (''created_at'', JStr (p_created_at self)),
      (''discounted_price'', json_opt JNum (Product_discounted_price fo self)),
      (''volume_cm3'', JNum (Product_volume_cm3 fo self))]"

text \<open>\<^verbatim>\<open>payload.model_dump(mode="json", exclude_unset=True)\<close>: the fields that were
  given, in the order of the class (\<open>None\<close> marks one that was not), then the computed
  fields, which \<^verbatim>\<open>exclude_unset\<close> does not drop. A computed field that raises makes the
  call raise.\<close>

definition given :: "('a \<Rightarrow> json) \<Rightarrow> 'a option field \<Rightarrow> json option" where
  "given conv f = (case f of Unset \<Rightarrow> None | Given v \<Rightarrow> Some (json_opt conv v))"

definition Update_Product_fields :: "Update_Product \<Rightarrow> (string \<times> json option) list" where
  "Update_Product_fields self =
     [(''id'', Some (JStr (u_id self))),
      (''name'', Some (json_opt JStr (u_name self))),
      (''description'', given JStr (u_description self)),
      (''category'', Some (json_opt JStr (u_category self))),
      (''brand'', given JStr (u_brand self)),
      (''price'', Some (json_opt JNum (u_price self))),
      (''currency'', Some (json_opt JStr (u_currency self))),
      (''discount_percent'', given JNum (u_discount_percent self)),
      (''stock'', Some (json_opt JInt (u_stock self))),
      (''is_active'', given JBool (u_is_active self)),
      (''rating'', given JNum (u_rating self)),
      (''tags'', given JTags (u_tags self)),
      (''image_url'', given JStr (u_image_url self)),
      (''dimensions_cm'',
         Some (json_opt (\<lambda>d. JObj (Dimensions_cm_model_dump d)) (u_dimensions_cm self))),
      (''seller'', Some (json_opt (\<lambda>s. JObj (Seller_model_dump s)) (u_seller self))),
      (''created_at'', Some (json_opt JStr (u_created_at self)))]"

fun set_fields :: "(string \<times> json option) list \<Rightarrow> dict" where
  "set_fields [] = []"
| "set_fields ((k, None) # kvs) = set_fields kvs"
| "set_fields ((k, Some v) # kvs) = (k, v) # set_fields kvs"

definition Update_Product_model_dump :: "float_ops \<Rightarrow> Update_Product \<Rightarrow> error + dict" where
  "Update_Product_model_dump fo self =
     (case Update_Product_discounted_price fo self of
        Inl e \<Rightarrow> Inl e
      | Inr discounted_price \<Rightarrow>
          (case Update_Product_volume_cm3 fo self of
             Inl e \<Rightarrow> Inl e
           | Inr volume_cm3 \<Rightarrow>
               Inr (set_fields (Update_Product_fields self)
                    @ [(''discounted_price'', json_opt JNum discounted_price),
                       (''volume_cm3'', JNum volume_cm3)])))"

section \<open>main.py\<close>

text \<open>
  A handler takes the instance FastAPI built from the request, and the identifier of
  the path as the string \<^verbatim>\<open>str(product_id)\<close>. \<^verbatim>\<open>str(uuid4())\<close> and
  \<^verbatim>\<open>datetime.utcnow().isoformat()\<close> are arguments. An exception that no \<^verbatim>\<open>except\<close> clause
  catches leaves the handler as it is.
\<close>

fun find_product :: "string \<Rightarrow> dict list \<Rightarrow> error + dict" where
  "find_product product_id [] = Inl (HTTPException 404 [Lit ''Product is unavailable.''])"
| "find_product product_id (product # products) =
     (case map_of product ''id'' of
        None \<Rightarrow> Inl (KeyError ''id'')
      | Some v \<Rightarrow>
          if py_eq v (JStr product_id) then Inr product
          else find_product product_id products)"

definition get_product_by_id :: "string \<Rightarrow> products_file \<Rightarrow> error + dict" where
  "get_product_by_id product_id file =
     (if length product_id \<noteq> 36 then Inl (RequestValidationError [[''path'', ''product_id'']])
      else find_product product_id (get_all_products file))"

definition create_product ::
  "float_ops \<Rightarrow> string \<Rightarrow> string \<Rightarrow> Product \<Rightarrow> products_file \<Rightarrow> (error + dict) \<times> products_file"
where
  "create_product fo uuid4 utcnow product file =
     (let product_dict = Product_model_dump fo product;
          product_dict = AList.update ''id'' (JStr uuid4) product_dict;
          product_dict = AList.update ''created_at'' (JStr (utcnow @ ''Z'')) product_dict
      in case add_product product_dict file of
           (Inl (ValueError e), file') \<Rightarrow> (Inl (HTTPException 400 e), file')
         | (Inl e, file') \<Rightarrow> (Inl e, file')
         | (Inr added, file') \<Rightarrow> (Inr (Product_model_dump fo product), file'))"

definition delete_product :: "string \<Rightarrow> products_file \<Rightarrow> (error + json) \<times> products_file" where
  "delete_product product_id file =
     (case remove_product product_id file of
        (Inl (ValueError e), file') \<Rightarrow> (Inl (HTTPException 404 e), file')
      | result \<Rightarrow> result)"

definition update_product ::
  "float_ops \<Rightarrow> string \<Rightarrow> Update_Product \<Rightarrow> products_file \<Rightarrow> (error + dict) \<times> products_file"
where
  "update_product fo product_id payload file =
     (case Update_Product_model_dump fo payload of
        Inl e \<Rightarrow> (Inl e, file)
      | Inr update_data \<Rightarrow>
          (case change_product product_id update_data file of
             (Inl (ValueError e), file') \<Rightarrow> (Inl (HTTPException 404 e), file')
           | updated_product \<Rightarrow> updated_product))"

definition patch_product ::
  "float_ops \<Rightarrow> string \<Rightarrow> Update_Product \<Rightarrow> products_file \<Rightarrow> (error + dict) \<times> products_file"
where
  "patch_product fo product_id payload file =
     (case Update_Product_model_dump fo payload of
        Inl e \<Rightarrow> (Inl e, file)
      | Inr update_data \<Rightarrow>
          (case change_product product_id update_data file of
             (Inl (ValueError e), file') \<Rightarrow> (Inl (HTTPException 404 e), file')
           | updated_product \<Rightarrow> updated_product))"

text \<open>A request reaches its handler only when its body validates against the model
  the handler declares; otherwise FastAPI answers with the validation error and the
  handler does not run.\<close>

definition post_products ::
  "float_ops \<Rightarrow> string \<Rightarrow> string \<Rightarrow> Product \<Rightarrow> products_file \<Rightarrow> (error + dict) \<times> products_file"
where
  "post_products fo uuid4 utcnow body file =
     (case Product_validate body of
        Inl e \<Rightarrow> (Inl e, file)
      | Inr product \<Rightarrow> create_product fo uuid4 utcnow product file)"

definition put_products ::
  "float_ops \<Rightarrow> string \<Rightarrow> Update_Product \<Rightarrow> products_file \<Rightarrow> (error + dict) \<times> products_file"
where
  "put_products fo product_id body file =
     (case Update_Product_validate body of
        Inl e \<Rightarrow> (Inl e, file)
      | Inr payload \<Rightarrow> update_product fo product_id payload file)"

definition patch_products ::
  "float_ops \<Rightarrow> string \<Rightarrow> Update_Product \<Rightarrow> products_file \<Rightarrow> (error + dict) \<times> products_file"
where
  "patch_products fo product_id body file =
     (case Update_Product_validate body of
        Inl e \<Rightarrow> (Inl e, file)
      | Inr payload \<Rightarrow> patch_product fo product_id payload file)"

section \<open>The constraints of \<^verbatim>\<open>Product\<close> on a stored record\<close>

text \<open>
  What the \<^verbatim>\<open>Product\<close> class demands of an instance, read on the JSON object that
  \<^verbatim>\<open>model_dump(mode="json")\<close> writes for it: the type of every field, its \<^verbatim>\<open>Field\<close>
  bounds, the seller's email domain and \<^verbatim>\<open>check_discount\<close>. \<^verbatim>\<open>null\<close> stands for an
  attribute that is \<^verbatim>\<open>None\<close>, which only a field with the default \<^verbatim>\<open>None\<close> may be; a
  field with a default may be missing.
\<close>

definition required :: "(json \<Rightarrow> bool) \<Rightarrow> json option \<Rightarrow> bool" where
  "required P v = (case v of None \<Rightarrow> False | Some x \<Rightarrow> P x)"

definition optional :: "(json \<Rightarrow> bool) \<Rightarrow> json option \<Rightarrow> bool" where
  "optional P v = (case v of None \<Rightarrow> True | Some x \<Rightarrow> x = JNull \<or> P x)"

definition defaulted :: "(json \<Rightarrow> bool) \<Rightarrow> json option \<Rightarrow> bool" where
  "defaulted P v = (case v of None \<Rightarrow> True | Some x \<Rightarrow> P x)"

definition str_of :: "(string \<Rightarrow> bool) \<Rightarrow> json \<Rightarrow> bool" where
  "str_of P x = (case x of JStr s \<Rightarrow> P s | _ \<Rightarrow> False)"

definition num_of :: "(rat \<Rightarrow> bool) \<Rightarrow> json \<Rightarrow> bool" where
  "num_of P x = (case x of JNum q \<Rightarrow> P q | _ \<Rightarrow> False)"

definition bool_of :: "json \<Rightarrow> bool" where
  "bool_of x = (case x of JBool b \<Rightarrow> True | _ \<Rightarrow> False)"

definition tags_of :: "json \<Rightarrow> bool" where
  "tags_of x = (case x of JArr xs \<Rightarrow> list_all (str_of (\<lambda>s. True)) xs | _ \<Rightarrow> False)"

definition obj_of :: "(dict \<Rightarrow> bool) \<Rightarrow> json \<Rightarrow> bool" where
  "obj_of P x = (case x of JObj d \<Rightarrow> P d | _ \<Rightarrow> False)"

definition Seller_constraints :: "dict \<Rightarrow> bool" where
  "Seller_constraints d =
     (required (str_of (\<lambda>s. True)) (map_of d ''seller_id'')
      \<and> required (str_of (\<lambda>s. 1 \<le> length s \<and> length s \<le> 50)) (map_of d ''name'')
      \<and> required (str_of (\<lambda>s. \<not> isl (Seller_validate_seller_email_domain s))) (map_of d ''email'')
      \<and> required (str_of (\<lambda>s. True)) (map_of d ''website''))"

definition Dimensions_cm_constraints :: "dict \<Rightarrow> bool" where
  "Dimensions_cm_constraints d =
     (required (num_of (\<lambda>q. 0 \<le> q)) (map_of d ''length'')
      \<and> required (num_of (\<lambda>q. 0 \<le> q)) (map_of d ''width'')
      \<and> required (num_of (\<lambda>q. 0 \<le> q)) (map_of d ''height''))"

definition Product_constraints :: "dict \<Rightarrow> bool" where
  "Product_constraints d =
     (required (str_of (\<lambda>s. True)) (map_of d ''id'')
      \<and> required (str_of (\<lambda>s. 8 \<le> length s \<and> length s \<le> 20)) (map_of d ''sku'')
      \<and> required (str_of (\<lambda>s. 1 \<le> length s \<and> length s \<le> 50)) (map_of d ''name'')
      \<and> optional (str_of (\<lambda>s. length s \<le> 500)) (map_of d ''description'')
      \<and> required (str_of (\<lambda>s. 1 \<le> length s \<and> length s \<le> 30)) (map_of d ''category'')
      \<and> optional (str_of (\<lambda>s. length s \<le> 30)) (map_of d ''brand'')
      \<and> required (num_of (\<lambda>q. 0 \<le> q)) (map_of d ''price'')
      \<and> required (str_of (\<lambda>s. s \<in> currencies)) (map_of d ''currency'')
      \<and> optional (num_of (\<lambda>q. 0 \<le> q \<and> q \<le> 100)) (map_of d ''discount_percent'')
      \<and> required (num_of (\<lambda>q. 0 \<le> q \<and> q \<in> \<int>)) (map_of d ''stock'')
      \<and> defaulted bool_of (map_of d ''is_active'')
      \<and> optional (num_of (\<lambda>q. 0 \<le> q \<and> q \<le> 5)) (map_of d ''rating'')
      \<and> optional tags_of (map_of d ''tags'')
      \<and> optional (str_of (\<lambda>s. True)) (map_of d ''image_url'')
      \<and> required (obj_of Dimensions_cm_constraints) (map_of d ''dimensions_cm'')
      \<and> required (obj_of Seller_constraints) (map_of d ''seller'')
      \<and> required (str_of (\<lambda>s. True)) (map_of d ''created_at''))"

section \<open>The merge rule in the words of the specification\<close>

text \<open>
  The rule as the specification words it, applied again inside nested objects: a key
  of the update with \<^verbatim>\<open>null\<close> is skipped, two objects are merged by the same rule, and
  any other value replaces the record's. It is the rule \<^const>\<open>merge_items\<close> is compared
  with.
\<close>

fun spec_merge :: "dict \<Rightarrow> dict \<Rightarrow> dict" where
  "spec_merge R [] = R"
| "spec_merge R ((key, val) # U) =
     (if val = JNull then spec_merge R U
      else
        (case (val, map_of R key) of
           (JObj u, Some (JObj r)) \<Rightarrow> spec_merge (AList.update key (JObj (spec_merge r u)) R) U
         | _ \<Rightarrow> spec_merge (AList.update key val R) U))"

text \<open>A flat object: no field is \<^verbatim>\<open>null\<close> and none is an object, as in what a
  \<^verbatim>\<open>Seller\<close> or a \<^verbatim>\<open>Dimensions_cm\<close> is serialized to.\<close>

fun scalar :: "json \<Rightarrow> bool" where
  "scalar JNull = False"
| "scalar (JObj d) = False"
| "scalar x = True"

fun flat_objects :: "dict \<Rightarrow> bool" where
  "flat_objects [] = True"
| "flat_objects ((key, JObj u) # U) = (list_all (\<lambda>(f, x). scalar x) u \<and> flat_objects U)"
| "flat_objects ((key, val) # U) = flat_objects U"

section \<open>The states the service reaches\<close>

text \<open>
  The file is absent or empty at first, and changes only through the requests that
  write it.
\<close>

inductive reachable :: "products_file \<Rightarrow> bool" where
  absent: "reachable None"
| empty: "reachable (Some [])"
| post: "reachable file \<Longrightarrow> post_products fo uuid4 utcnow body file = (result, file')
         \<Longrightarrow> reachable file'"
| delete: "reachable file \<Longrightarrow> delete_product product_id file = (deleted, file')
         \<Longrightarrow> reachable file'"
| put: "reachable file \<Longrightarrow> put_products fo product_id payload file = (updated, file')
         \<Longrightarrow> reachable file'"
| patch: "reachable file \<Longrightarrow> patch_products fo product_id payload file = (updated, file')
         \<Longrightarrow> reachable file'"

definition sku :: "dict \<Rightarrow> json option" where
  "sku p = map_of p ''sku''"

text \<open>Every record has a string under \<^verbatim>\<open>sku\<close>, and no two records the same one.\<close>

definition skus_unique :: "products_file \<Rightarrow> bool" where
  "skus_unique file =
     (list_all (\<lambda>p. case sku p of Some (JStr s) \<Rightarrow> True | _ \<Rightarrow> False) (load_products file)
      \<and> distinct (map sku (load_products file)))"

section \<open>Worked examples\<close>

text \<open>
  The float operations on values where binary64 arithmetic is exact: every quotient,
  product, difference and rounded value computed in the examples below is a binary64
  number, so Python computes the same values.
\<close>

definition round_half_even :: "rat \<Rightarrow> int" where
  "round_half_even x =
     (let f = \<lfloor>x\<rfloor>; r = x - of_int f
      in if r < 1 / 2 then f else if 1 / 2 < r then f + 1 else if even f then f else f + 1)"

definition exact_ops :: float_ops where
  "exact_ops =
     \<lparr>f_truediv = (\<lambda>a b. a / b),
      f_mul = (\<lambda>a b. a * b),
      f_sub = (\<lambda>a b. a - b),
      f_round = (\<lambda>x n. of_int (round_half_even (x * 10 ^ nat n)) / 10 ^ nat n)\<rparr>"

text \<open>A product as a client posts it, the record \<^verbatim>\<open>create_product\<close> writes for it with
  the identifier \<^verbatim>\<open>7c9e6679-...\<close> at \<^verbatim>\<open>2024-05-01T10:00:00\<close>, and an update of its price.\<close>

definition acme :: Seller where
  "acme =
     \<lparr>seller_id = ''0b8f1c5e-3d2a-4c6b-9e7f-1a2b3c4d5e6f'',
      seller_name = ''Acme'',
      seller_email = ''sales@shop.com'',
      seller_website = ''https://shop.com/''\<rparr>"

definition mouse :: Product where
  "mouse =
     \<lparr>p_id = ''2f54696f-d3e1-32a3-a3ef-d8593fae2d7b'',
      p_sku = ''ABCD12345'',
      p_name = ''Mouse'',
      p_description = None,
      p_category = ''Accessories'',
      p_brand = None,
      p_price = 20,
      p_currency = ''USD'',
      p_discount_percent = Some 25,
      p_stock = 10,
      p_is_active = True,
      p_rating = None,
      p_tags = None,
      p_image_url = None,
      p_dimensions_cm = \<lparr>dim_length = 10, dim_width = 6, dim_height = 3\<rparr>,
      p_seller = acme,
      p_created_at = ''2024-01-01T00:00:00''\<rparr>"

definition stored_mouse :: dict where
  "stored_mouse =
     [(''id'', JStr ''7c9e6679-7425-40de-944b-e07fc1f90ae7''),
      (''sku'', JStr ''ABCD12345''),
      (''name'', JStr ''Mouse''),
      (''description'', JNull),
      (''category'', JStr ''Accessories''),
      (''brand'', JNull),
      (''price'', JNum 20),
      (''currency'', JStr ''USD''),
      (''discount_percent'', JNum 25),
      (''stock'', JNum 10),
      (''is_active'', JBool True),
      (''rating'', JNull),
      (''tags'', JNull),
      (''image_url'', JNull),
      (''dimensions_cm'', JObj [(''length'', JNum 10), (''width'', JNum 6), (''height'', JNum 3)]),
      (''seller'',
         JObj [(''seller_id'', JStr ''0b8f1c5e-3d2a-4c6b-9e7f-1a2b3c4d5e6f''),
               (''name'', JStr ''Acme''),
               (''email'', JStr ''sales@shop.com''),
               (''website'', JStr ''https://shop.com/'')]),
      (''created_at'', JStr ''2024-05-01T10:00:00Z''),
      (''discounted_price'', JNum 15),
      (''volume_cm3'', JNum 180)]"

definition reprice :: Update_Product where
  "reprice =
     \<lparr>u_id = ''7c9e6679-7425-40de-944b-e07fc1f90ae7'',
      u_name = None,
      u_description = Unset,
      u_category = None,
      u_brand = Unset,
      u_price = Some 50,
      u_currency = None,
      u_discount_percent = Unset,
      u_stock = None,
      u_is_active = Unset,
      u_rating = Unset,
      u_tags = Unset,
      u_image_url = Unset,
      u_dimensions_cm = Some \<lparr>dim_length = 10, dim_width = 6, dim_height = 3\<rparr>,
      u_seller = None,
      u_created_at = None\<rparr>"

text \<open>The stored record after the update of the price, and the same update sent with
  another identifier in its body.\<close>

definition repriced_mouse :: dict where
  "repriced_mouse =
     [(''id'', JStr ''7c9e6679-7425-40de-944b-e07fc1f90ae7''),
      (''sku'', JStr ''ABCD12345''),
      (''name'', JStr ''Mouse''),
      (''description'', JNull),
      (''category'', JStr ''Accessories''),
      (''brand'', JNull),
      (''price'', JNum 50),
      (''currency'', JStr ''USD''),
      (''discount_percent'', JNum 25),
      (''stock'', JNum 10),
      (''is_active'', JBool True),
      (''rating'', JNull),
      (''tags'', JNull),
      (''image_url'', JNull),
      (''dimensions_cm'', JObj [(''length'', JNum 10), (''width'', JNum 6), (''height'', JNum 3)]),
      (''seller'',
         JObj [(''seller_id'', JStr ''0b8f1c5e-3d2a-4c6b-9e7f-1a2b3c4d5e6f''),
               (''name'', JStr ''Acme''),
               (''email'', JStr ''sales@shop.com''),
               (''website'', JStr ''https://shop.com/'')]),
      (''created_at'', JStr ''2024-05-01T10:00:00Z''),
      (''discounted_price'', JNum 15),
      (''volume_cm3'', JNum 180)]"

definition reprice_as_other :: Update_Product where
  "reprice_as_other = reprice\<lparr>u_id := ''16fd2706-8baf-433b-82eb-8c7fada847da''\<rparr>"

text \<open>The update of the price with a discount of 150 percent, and the stored record as a
  file edited by hand may hold it, with a discount no validator accepted.\<close>

definition overdiscount :: Update_Product where
  "overdiscount = reprice\<lparr>u_discount_percent := Given (Some 150)\<rparr>"

definition mispriced_mouse :: dict where
  "mispriced_mouse = AList.update ''discount_percent'' (JNum 150) stored_mouse"

text \<open>The update of the price with a discount of 50 percent, and the stored record
  after it.\<close>

definition half_price :: Update_Product where
  "half_price = reprice\<lparr>u_discount_percent := Given (Some 50)\<rparr>"

definition half_priced_mouse :: dict where
  "half_priced_mouse =
     [(''id'', JStr ''7c9e6679-7425-40de-944b-e07fc1f90ae7''),
      (''sku'', JStr ''ABCD12345''),
      (''name'', JStr ''Mouse''),
      (''description'', JNull),
      (''category'', JStr ''Accessories''),
      (''brand'', JNull),
      (''price'', JNum 50),
      (''currency'', JStr ''USD''),
      (''discount_percent'', JNum 50),
      (''stock'', JNum 10),
      (''is_active'', JBool True),
      (''rating'', JNull),
      (''tags'', JNull),
      (''image_url'', JNull),
      (''dimensions_cm'', JObj [(''length'', JNum 10), (''width'', JNum 6), (''height'', JNum 3)]),
      (''seller'',
         JObj [(''seller_id'', JStr ''0b8f1c5e-3d2a-4c6b-9e7f-1a2b3c4d5e6f''),
               (''name'', JStr ''Acme''),
               (''email'', JStr ''sales@shop.com''),
               (''website'', JStr ''https://shop.com/'')]),
      (''created_at'', JStr ''2024-05-01T10:00:00Z''),
      (''discounted_price'', JNum 25),
      (''volume_cm3'', JNum 180)]"

section \<open>Binary64 arithmetic\<close>










section \<open>The seller's email domain: the allow-list as written\<close>

lemma split_str_nonempty: "split_str sep s \<noteq> []"
  by (induction s) (auto split: list.splits)

lemma split_str_no_sep: "sep \<notin> set d \<Longrightarrow> split_str sep d = [d]"
  by (induction d) auto

lemma split_str_append:
  "\<exists>pre. pre \<noteq> [] \<and> split_str sep (xs @ sep # ys) = pre @ split_str sep ys"
proof (induction xs)
  case Nil
  have "split_str sep ([] @ sep # ys) = [[]] @ split_str sep ys" by simp
  then show ?case by blast
next
  case (Cons c xs)
  then obtain w ws where pre: "split_str sep (xs @ sep # ys) = (w # ws) @ split_str sep ys"
    by (metis neq_Nil_conv)
  show ?case
  proof (cases "c = sep")
    case True
    then have "split_str sep ((c # xs) @ sep # ys) = ([] # w # ws) @ split_str sep ys"
      using pre by simp
    then show ?thesis by blast
  next
    case False
    then have "split_str sep ((c # xs) @ sep # ys) = ((c # w) # ws) @ split_str sep ys"
      using pre by simp
    then show ?thesis by blast
  qed
qed

text \<open>The domain the validators look up is what follows the last \<^verbatim>\<open>@\<close>.\<close>

lemma domain_after_last_at:
  assumes "CHR ''@'' \<notin> set d"
  shows "last (split_str CHR ''@'' (local_part @ CHR ''@'' # d)) = d"
proof -
  obtain pre where "split_str CHR ''@'' (local_part @ CHR ''@'' # d) = pre @ split_str CHR ''@'' d"
    using split_str_append by blast
  then show ?thesis using assms by (simp add: split_str_no_sep)
qed

lemma domain_ecommerce:
  "last (split_str CHR ''@'' (local_part @ ''@ecommerce.com'')) = ''ecommerce.com''"
  using domain_after_last_at[of "''ecommerce.com''" local_part] by simp

lemma domain_dellexclusive:
  "last (split_str CHR ''@'' (local_part @ ''@dellexclusive.in'')) = ''dellexclusive.in''"
  using domain_after_last_at[of "''dellexclusive.in''" local_part] by simp

lemma domain_joined:
  "last (split_str CHR ''@'' (local_part @ ''@dellexclusive.inecommerce.com''))
     = ''dellexclusive.inecommerce.com''"
  using domain_after_last_at[of "''dellexclusive.inecommerce.com''" local_part] by simp

text \<open>
  C10. Neither \<^verbatim>\<open>ecommerce.com\<close> nor \<^verbatim>\<open>dellexclusive.in\<close> is an entry of the allow-list of
  \<^verbatim>\<open>Seller\<close> or of \<^verbatim>\<open>UpdateSeller\<close>; the two literals are one entry,
  \<^verbatim>\<open>dellexclusive.inecommerce.com\<close>. So whatever stands before the \<^verbatim>\<open>@\<close>, both validators
  raise for an address at \<^verbatim>\<open>ecommerce.com\<close> or at \<^verbatim>\<open>dellexclusive.in\<close>, and return an
  address at \<^verbatim>\<open>dellexclusive.inecommerce.com\<close> as valid.
\<close>

theorem allow_list_missing_comma:
  "''ecommerce.com'' \<notin> Seller_allowed_domains
   \<and> ''dellexclusive.in'' \<notin> Seller_allowed_domains
   \<and> ''dellexclusive.inecommerce.com'' \<in> Seller_allowed_domains
   \<and> Seller_validate_seller_email_domain (local_part @ ''@ecommerce.com'')
       = Inl (not_allowed ''ecommerce.com'')
   \<and> Seller_validate_seller_email_domain (local_part @ ''@dellexclusive.in'')
       = Inl (not_allowed ''dellexclusive.in'')
   \<and> Seller_validate_seller_email_domain (local_part @ ''@dellexclusive.inecommerce.com'')
       = Inr (local_part @ ''@dellexclusive.inecommerce.com'')
   \<and> ''ecommerce.com'' \<notin> UpdateSeller_allowed_domains
   \<and> ''dellexclusive.in'' \<notin> UpdateSeller_allowed_domains
   \<and> ''dellexclusive.inecommerce.com'' \<in> UpdateSeller_allowed_domains
   \<and> UpdateSeller_validate_seller_email_domain (Some (local_part @ ''@ecommerce.com''))
       = Inl (not_allowed ''ecommerce.com'')
   \<and> UpdateSeller_validate_seller_email_domain (Some (local_part @ ''@dellexclusive.in''))
       = Inl (not_allowed ''dellexclusive.in'')
   \<and> UpdateSeller_validate_seller_email_domain
         (Some (local_part @ ''@dellexclusive.inecommerce.com''))
       = Inr (local_part @ ''@dellexclusive.inecommerce.com'')"
proof -
  have s: "''ecommerce.com'' \<notin> Seller_allowed_domains"
    "''dellexclusive.in'' \<notin> Seller_allowed_domains"
    "''dellexclusive.inecommerce.com'' \<in> Seller_allowed_domains"
    by (simp_all add: Seller_allowed_domains_def)
  have u: "''ecommerce.com'' \<notin> UpdateSeller_allowed_domains"
    "''dellexclusive.in'' \<notin> UpdateSeller_allowed_domains"
    "''dellexclusive.inecommerce.com'' \<in> UpdateSeller_allowed_domains"
    by (simp_all add: UpdateSeller_allowed_domains_def)
  show ?thesis
    unfolding Seller_validate_seller_email_domain_def
      UpdateSeller_validate_seller_email_domain_def
    using s u
    by (simp only: domain_ecommerce domain_dellexclusive domain_joined Let_def option.case
        if_True if_False simp_thms)
qed

section \<open>The merge of \<^verbatim>\<open>change_product\<close>\<close>

lemma map_of_dict_update:
  "distinct (map fst e) \<Longrightarrow>
   map_of (dict_update d e) k = (case map_of e k of None \<Rightarrow> map_of d k | Some v \<Rightarrow> Some v)"
proof (induction e arbitrary: d k)
  case Nil then show ?case by simp
next
  case (Cons a e)
  obtain k' v' where a: "a = (k', v')" by (cases a)
  from Cons.prems a have nk: "map_of e k' = None" and d: "distinct (map fst e)"
    by (auto simp: map_of_eq_None_iff)
  show ?case using nk
    by (auto simp: a Cons.IH[OF d] update_conv' split: option.splits)
qed

lemma map_of_merge_items:
  "distinct (map fst U) \<Longrightarrow>
   map_of (merge_items R U) k =
     (case map_of U k of
        None \<Rightarrow> map_of R k
      | Some v \<Rightarrow>
          if v = JNull then map_of R k
          else (case (v, map_of R k) of
                  (JObj u, Some (JObj r)) \<Rightarrow> Some (JObj (dict_update r u))
                | _ \<Rightarrow> Some v))"
proof (induction U arbitrary: R k)
  case Nil then show ?case by simp
next
  case (Cons a U)
  obtain k' v' where a: "a = (k', v')" by (cases a)
  from Cons.prems a have nk: "map_of U k' = None" and d: "distinct (map fst U)"
    by (auto simp: map_of_eq_None_iff)
  show ?case using nk
    by (auto simp: a Cons.IH[OF d] update_conv' split: option.splits json.splits)
qed

lemma change_product_nonempty:
  "change_product pid U (Some (R # rest)) =
     (Inr (merge_items R U), Some (merge_items R U # rest))"
  by (simp add: change_product_def get_all_products_def load_products_def save_products_def
      Let_def)

lemma spec_merge_flat:
  "list_all (\<lambda>(f, x). scalar x) u \<Longrightarrow> spec_merge r u = dict_update r u"
proof (induction u arbitrary: r)
  case Nil then show ?case by simp
next
  case (Cons a u)
  obtain f x where a: "a = (f, x)" by (cases a)
  with Cons.prems have sx: "scalar x" and rest: "list_all (\<lambda>(f, x). scalar x) u" by auto
  from sx show ?case using Cons.IH[OF rest] by (cases x) (auto simp: a split: option.splits json.splits)
qed

lemma spec_merge_eq_merge_items:
  "flat_objects U \<Longrightarrow> spec_merge R U = merge_items R U"
proof (induction U arbitrary: R rule: flat_objects.induct)
  case 1 then show ?case by simp
next
  case (2 key u U)
  then show ?case by (auto simp: spec_merge_flat split: option.splits json.splits)
qed (auto split: option.splits json.splits)

text \<open>
  C7, as the code has it. For a key of the update whose value is not \<^verbatim>\<open>null\<close>: when that
  value and the record's value under the key are both objects, the merged record holds
  the record's object updated one level deep, by \<^verbatim>\<open>dict.update\<close>: every field of the
  update's object overrides, a \<^verbatim>\<open>null\<close> or an object like any other value, and every
  other field of the record's object is kept; otherwise the merged record holds the
  update's value in place of the record's. The merged record is what \<^verbatim>\<open>change_product\<close>
  returns and writes. Where the objects of the update are flat, as a seller and the
  dimensions are serialized, this is the rule of the specification applied recursively
  (\<^const>\<open>spec_merge\<close>).
\<close>

theorem merge_rule:
  assumes "distinct (map fst U)" and "map_of U key = Some val" and "val \<noteq> JNull"
  shows "change_product pid U (Some (R # rest))
           = (Inr (merge_items R U), Some (merge_items R U # rest))
         \<and> map_of (merge_items R U) key =
             (case (val, map_of R key) of
                (JObj u, Some (JObj r)) \<Rightarrow> Some (JObj (dict_update r u))
              | _ \<Rightarrow> Some val)
         \<and> (\<forall>r u f. distinct (map fst u) \<longrightarrow>
               map_of (dict_update r u) f =
                 (case map_of u f of Some x \<Rightarrow> Some x | None \<Rightarrow> map_of r f))
         \<and> (flat_objects U \<longrightarrow> merge_items R U = spec_merge R U)"
  using assms
  by (simp add: change_product_nonempty map_of_merge_items map_of_dict_update
      spec_merge_eq_merge_items)

theorem merge_rule_witness:
  "distinct (map fst [(''seller'', JObj [(''name'', JStr ''B'')])])
   \<and> map_of [(''seller'', JObj [(''name'', JStr ''B'')])] ''seller''
       = Some (JObj [(''name'', JStr ''B'')])
   \<and> JObj [(''name'', JStr ''B'')] \<noteq> JNull
   \<and> flat_objects [(''seller'', JObj [(''name'', JStr ''B'')])]
   \<and> merge_items [(''seller'', JObj [(''name'', JStr ''A''), (''email'', JStr ''a@x.com'')])]
        [(''seller'', JObj [(''name'', JStr ''B'')])]
       = [(''seller'', JObj [(''name'', JStr ''B''), (''email'', JStr ''a@x.com'')])]
   \<and> spec_merge [(''seller'', JObj [(''name'', JStr ''A''), (''email'', JStr ''a@x.com'')])]
        [(''seller'', JObj [(''name'', JStr ''B'')])]
       = [(''seller'', JObj [(''name'', JStr ''B''), (''email'', JStr ''a@x.com'')])]
   \<and> map_of (merge_items
               [(''seller'', JObj [(''name'', JStr ''A''), (''email'', JStr ''a@x.com'')])]
               [(''seller'', JObj [(''name'', JStr ''B'')])]) ''seller''
       = Some (JObj [(''name'', JStr ''B''), (''email'', JStr ''a@x.com'')])"
  using merge_rule[of "[(''seller'', JObj [(''name'', JStr ''B'')])]" "''seller''"
      "JObj [(''name'', JStr ''B'')]" "''x''"
      "[(''seller'', JObj [(''name'', JStr ''A''), (''email'', JStr ''a@x.com'')])]" "[]"]
  by simp

text \<open>
  C7, as the claim states it, fails where the update's object holds a \<^verbatim>\<open>null\<close> or an
  object: the rule applied recursively keeps the seller's name and the field \<^verbatim>\<open>d\<close>,
  \<^verbatim>\<open>dict.update\<close> writes the \<^verbatim>\<open>null\<close> and replaces the inner object.
\<close>

theorem merge_one_level_counterexample:
  "merge_items [(''seller'', JObj [(''name'', JStr ''A''), (''email'', JStr ''a@x.com'')])]
     [(''seller'', JObj [(''name'', JNull)])]
     = [(''seller'', JObj [(''name'', JNull), (''email'', JStr ''a@x.com'')])]
   \<and> spec_merge [(''seller'', JObj [(''name'', JStr ''A''), (''email'', JStr ''a@x.com'')])]
     [(''seller'', JObj [(''name'', JNull)])]
     = [(''seller'', JObj [(''name'', JStr ''A''), (''email'', JStr ''a@x.com'')])]
   \<and> merge_items [(''a'', JObj [(''b'', JObj [(''c'', JNum 1), (''d'', JNum 2)])])]
     [(''a'', JObj [(''b'', JObj [(''c'', JNum 3)])])]
     = [(''a'', JObj [(''b'', JObj [(''c'', JNum 3)])])]
   \<and> spec_merge [(''a'', JObj [(''b'', JObj [(''c'', JNum 1), (''d'', JNum 2)])])]
     [(''a'', JObj [(''b'', JObj [(''c'', JNum 3)])])]
     = [(''a'', JObj [(''b'', JObj [(''c'', JNum 3), (''d'', JNum 2)])])]"
  by simp

lemma change_product_cases:
  "change_product pid U file = (Inr updated, file') \<Longrightarrow>
   \<exists>R rest. load_products file = R # rest \<and> updated = merge_items R U
     \<and> load_products file' = merge_items R U # rest"
  by (auto simp: change_product_def get_all_products_def load_products_def save_products_def
      Let_def split: list.splits option.splits)

text \<open>
  C8. A key that the update does not have, or has with \<^verbatim>\<open>null\<close>, keeps its value: in the
  record that \<^verbatim>\<open>change_product\<close> returns, and in every record of the file it leaves.
\<close>

theorem absent_or_null_unchanged:
  assumes "distinct (map fst U)"
    and "map_of U key = None \<or> map_of U key = Some JNull"
    and "change_product pid U file = (Inr updated, file')"
  shows "map_of updated key = map_of (hd (load_products file)) key
         \<and> map (\<lambda>p. map_of p key) (load_products file')
             = map (\<lambda>p. map_of p key) (load_products file)"
proof -
  obtain R rest where *: "load_products file = R # rest" "updated = merge_items R U"
    "load_products file' = merge_items R U # rest"
    using change_product_cases[OF assms(3)] by blast
  have "map_of (merge_items R U) key = map_of R key"
    using assms(1,2) by (auto simp: map_of_merge_items)
  then show ?thesis using * by simp
qed

theorem absent_or_null_unchanged_witness:
  "distinct (map fst [(''price'', JNum 50)])
   \<and> (map_of [(''price'', JNum 50)] ''stock'' = None
        \<or> map_of [(''price'', JNum 50)] ''stock'' = Some JNull)
   \<and> change_product ''p1'' [(''price'', JNum 50)]
        (Some [[(''id'', JStr ''p1''), (''price'', JNum 20), (''stock'', JNum 10)]])
       = (Inr [(''id'', JStr ''p1''), (''price'', JNum 50), (''stock'', JNum 10)],
          Some [[(''id'', JStr ''p1''), (''price'', JNum 50), (''stock'', JNum 10)]])
   \<and> map_of [(''id'', JStr ''p1''), (''price'', JNum 50), (''stock'', JNum 10)] ''stock''
       = Some (JNum 10)
   \<and> map_of [(''id'', JStr ''p1''), (''price'', JNum 50), (''stock'', JNum 10)] ''price''
       = Some (JNum 50)"
  using absent_or_null_unchanged[of "[(''price'', JNum 50)]" "''stock''" "''p1''"
      "Some [[(''id'', JStr ''p1''), (''price'', JNum 20), (''stock'', JNum 10)]]"
      "[(''id'', JStr ''p1''), (''price'', JNum 50), (''stock'', JNum 10)]"
      "Some [[(''id'', JStr ''p1''), (''price'', JNum 50), (''stock'', JNum 10)]]"]
  by (simp add: change_product_nonempty)

text \<open>
  C1. \<^verbatim>\<open>change_product\<close> never compares an identifier: with the records \<^verbatim>\<open>a\<close> and \<^verbatim>\<open>b\<close>
  stored, an update for \<^verbatim>\<open>b\<close> changes \<^verbatim>\<open>a\<close> and leaves \<^verbatim>\<open>b\<close> as it was, and an update for
  the unknown \<^verbatim>\<open>c\<close> does the same instead of raising.
\<close>

theorem change_product_updates_first_record:
  "change_product ''b'' [(''price'', JNum 50)]
     (Some [[(''id'', JStr ''a''), (''price'', JNum 1)],
            [(''id'', JStr ''b''), (''price'', JNum 2)]])
   = (Inr [(''id'', JStr ''a''), (''price'', JNum 50)],
      Some [[(''id'', JStr ''a''), (''price'', JNum 50)],
            [(''id'', JStr ''b''), (''price'', JNum 2)]])
   \<and> change_product ''c'' [(''price'', JNum 50)]
     (Some [[(''id'', JStr ''a''), (''price'', JNum 1)],
            [(''id'', JStr ''b''), (''price'', JNum 2)]])
   = (Inr [(''id'', JStr ''a''), (''price'', JNum 50)],
      Some [[(''id'', JStr ''a''), (''price'', JNum 50)],
            [(''id'', JStr ''b''), (''price'', JNum 2)]])"
  by (simp add: change_product_nonempty)

text \<open>
  C3. With no record of the identifier, \<^verbatim>\<open>remove_product\<close> raises nothing: it returns
  \<^verbatim>\<open>None\<close>, which \<^verbatim>\<open>delete_product\<close> passes on as its result. The file is unchanged.
\<close>

theorem remove_product_absent_returns_None:
  "remove_product ''b'' (Some [[(''id'', JStr ''a''), (''sku'', JStr ''ABCD12345'')]])
     = (Inr JNull, Some [[(''id'', JStr ''a''), (''sku'', JStr ''ABCD12345'')]])
   \<and> delete_product ''b'' (Some [[(''id'', JStr ''a''), (''sku'', JStr ''ABCD12345'')]])
     = (Inr JNull, Some [[(''id'', JStr ''a''), (''sku'', JStr ''ABCD12345'')]])
   \<and> remove_product ''b'' None = (Inr JNull, None)"
  by (simp add: remove_product_def delete_product_def get_all_products_def load_products_def)

section \<open>Lemmas about the store and the serialized payload\<close>

lemma py_eq_JStr [simp]: "py_eq v (JStr s) = (v = JStr s)"
  by (cases v) auto

lemma any_sku_str:
  assumes "list_all (\<lambda>p. case sku p of Some (JStr s) \<Rightarrow> True | _ \<Rightarrow> False) ps"
    and "sku product = Some (JStr s)"
  shows "any_sku product ps = Inr (Some (JStr s) \<in> set (map sku ps))"
  using assms
  by (induction ps) (auto simp: sku_def split: option.splits json.splits)

lemma remove_loop_sublist:
  "remove_loop pid ps = Inr (Some (d, rest)) \<Longrightarrow>
   \<exists>xs ys. ps = xs @ d # ys \<and> rest = xs @ ys"
proof (induction ps arbitrary: rest)
  case Nil then show ?case by simp
next
  case (Cons p ps)
  show ?case
  proof (cases "map_of p ''id''")
    case None with Cons.prems show ?thesis by simp
  next
    case (Some v)
    show ?thesis
    proof (cases "py_eq v (JStr pid)")
      case True
      with Some Cons.prems have "d = p" "rest = ps" by auto
      then have "p # ps = [] @ d # ps \<and> rest = [] @ ps" by simp
      then show ?thesis by blast
    next
      case False
      with Some Cons.prems obtain rest' where r: "remove_loop pid ps = Inr (Some (d, rest'))"
        and rest: "rest = p # rest'"
        by (auto split: sum.splits option.splits)
      from Cons.IH[OF r] obtain xs ys where "ps = xs @ d # ys" "rest' = xs @ ys" by blast
      then have "p # ps = (p # xs) @ d # ys \<and> rest = (p # xs) @ ys" using rest by simp
      then show ?thesis by blast
    qed
  qed
qed

lemma set_fields_keys: "set (map fst (set_fields items)) \<subseteq> set (map fst items)"
  by (induction items rule: set_fields.induct) auto

lemma set_fields_not_key:
  "k \<notin> set (map fst items) \<Longrightarrow> k \<notin> set (map fst (set_fields items))"
  using set_fields_keys[of items] by blast

lemma set_fields_distinct: "distinct (map fst items) \<Longrightarrow> distinct (map fst (set_fields items))"
proof (induction items rule: set_fields.induct)
  case 1 then show ?case by simp
next
  case (2 k kvs) then show ?case by simp
next
  case (3 k v kvs)
  then have "k \<notin> set (map fst kvs)" "distinct (map fst kvs)" by simp_all
  then show ?case using 3 set_fields_not_key[of k kvs] by simp
qed

lemma map_of_set_fields:
  "distinct (map fst items) \<Longrightarrow>
   map_of (set_fields items) k = (case map_of items k of Some (Some v) \<Rightarrow> Some v | _ \<Rightarrow> None)"
proof (induction items rule: set_fields.induct)
  case 1 then show ?case by simp
next
  case (2 k' kvs)
  then have "k' \<notin> set (map fst kvs)" by simp
  then have "map_of (set_fields kvs) k' = None"
    using set_fields_not_key[of k' kvs] by (simp only: map_of_eq_None_iff set_map not_False_eq_True)
  moreover have "map_of kvs k' = None"
    using \<open>k' \<notin> set (map fst kvs)\<close> by (simp add: map_of_eq_None_iff)
  ultimately show ?case using 2 by simp
next
  case (3 k' v kvs)
  then show ?case by simp
qed


lemma Update_Product_fields_distinct: "distinct (map fst (Update_Product_fields self))"
  by (simp add: Update_Product_fields_def)

lemma Update_Product_fields_keys:
  "map fst (Update_Product_fields self) =
     [''id'', ''name'', ''description'', ''category'', ''brand'', ''price'', ''currency'',
      ''discount_percent'', ''stock'', ''is_active'', ''rating'', ''tags'', ''image_url'',
      ''dimensions_cm'', ''seller'', ''created_at'']"
  by (simp add: Update_Product_fields_def)

lemma not_a_field:
  "''discounted_price'' \<notin> set (map fst (set_fields (Update_Product_fields self)))"
  "''volume_cm3'' \<notin> set (map fst (set_fields (Update_Product_fields self)))"
  "''sku'' \<notin> set (map fst (set_fields (Update_Product_fields self)))"
proof -
  have "''discounted_price'' \<notin> set (map fst (Update_Product_fields self))"
    "''volume_cm3'' \<notin> set (map fst (Update_Product_fields self))"
    "''sku'' \<notin> set (map fst (Update_Product_fields self))"
    unfolding Update_Product_fields_keys by simp_all
  then show "''discounted_price'' \<notin> set (map fst (set_fields (Update_Product_fields self)))"
    "''volume_cm3'' \<notin> set (map fst (set_fields (Update_Product_fields self)))"
    "''sku'' \<notin> set (map fst (set_fields (Update_Product_fields self)))"
    by (simp_all only: set_fields_not_key not_False_eq_True)
qed

lemma Update_Product_model_dump_eq:
  assumes "Update_Product_model_dump fo self = Inr d"
  shows "\<exists>dp vol. Update_Product_discounted_price fo self = Inr dp
           \<and> Update_Product_volume_cm3 fo self = Inr vol
           \<and> d = set_fields (Update_Product_fields self)
                 @ [(''discounted_price'', json_opt JNum dp), (''volume_cm3'', JNum vol)]"
  using assms by (auto simp: Update_Product_model_dump_def split: sum.splits)

lemma Update_Product_model_dump_distinct:
  assumes "Update_Product_model_dump fo self = Inr d"
  shows "distinct (map fst d)"
proof -
  obtain dp vol where d: "d = set_fields (Update_Product_fields self)
      @ [(''discounted_price'', json_opt JNum dp), (''volume_cm3'', JNum vol)]"
    using Update_Product_model_dump_eq[OF assms] by blast
  show ?thesis
    using set_fields_distinct[OF Update_Product_fields_distinct[of self]] not_a_field(1,2)[of self]
    by (simp add: d)
qed

lemma map_of_Update_Product_model_dump:
  assumes "Update_Product_model_dump fo self = Inr d"
    and "k \<noteq> ''discounted_price''" and "k \<noteq> ''volume_cm3''"
  shows "map_of d k =
           (case map_of (Update_Product_fields self) k of Some (Some v) \<Rightarrow> Some v | _ \<Rightarrow> None)"
proof -
  obtain dp vol where d: "d = set_fields (Update_Product_fields self)
      @ [(''discounted_price'', json_opt JNum dp), (''volume_cm3'', JNum vol)]"
    using Update_Product_model_dump_eq[OF assms(1)] by blast
  show ?thesis
    using assms(2,3)
    by (simp add: d map_of_set_fields[OF Update_Product_fields_distinct] map_add_def
        split: option.splits)
qed

lemma Update_Product_model_dump_no_sku:
  assumes "Update_Product_model_dump fo self = Inr d"
  shows "map_of d ''sku'' = None"
proof -
  have "map_of (Update_Product_fields self) ''sku'' = None"
    by (simp add: Update_Product_fields_def)
  then show ?thesis
    using map_of_Update_Product_model_dump[OF assms, of "''sku''"] by simp
qed

section \<open>The SKU invariant, operation by operation\<close>

lemma add_product_str_sku:
  assumes "skus_unique file" and "sku product = Some (JStr s)"
  shows "add_product product file =
           (if Some (JStr s) \<in> set (map sku (load_products file))
            then (Inl (ValueError [Lit ''Product with SKU '', Fmt (JStr s),
                                   Lit '' already exists.'']), file)
            else (Inr product, Some (load_products file @ [product])))"
proof -
  have "any_sku product (load_products file)
          = Inr (Some (JStr s) \<in> set (map sku (load_products file)))"
    using assms by (intro any_sku_str) (simp_all add: skus_unique_def)
  then show ?thesis
    using assms(2)
    by (simp add: add_product_def get_all_products_def save_products_def sku_def Let_def)
qed

lemma skus_unique_add:
  assumes "skus_unique file" and "sku product = Some (JStr s)"
    and "add_product product file = (r, file')"
  shows "skus_unique file'"
  using assms(3) assms(1,2) unfolding add_product_str_sku[OF assms(1,2)]
  by (auto simp: skus_unique_def load_products_def split: if_splits)

lemma skus_unique_remove:
  assumes "skus_unique file" and "remove_product pid file = (r, file')"
  shows "skus_unique file'"
proof (cases "remove_loop pid (load_products file)")
  case (Inl e)
  with assms show ?thesis by (simp add: remove_product_def get_all_products_def)
next
  case (Inr res)
  show ?thesis
  proof (cases res)
    case None
    with Inr assms show ?thesis by (simp add: remove_product_def get_all_products_def)
  next
    case (Some dr)
    obtain d rest where dr: "dr = (d, rest)" by (cases dr)
    from remove_loop_sublist[of pid "load_products file" d rest] Inr Some dr
    obtain xs ys where xy: "load_products file = xs @ d # ys" "rest = xs @ ys" by auto
    have "file' = Some rest"
      using assms(2) Inr Some dr
      by (simp add: remove_product_def get_all_products_def save_products_def)
    then show ?thesis using assms(1) xy
      by (auto simp: skus_unique_def load_products_def)
  qed
qed

lemma skus_unique_change:
  assumes "skus_unique file" and "distinct (map fst U)" and "map_of U ''sku'' = None"
    and "change_product pid U file = (r, file')"
  shows "skus_unique file'"
proof (cases "load_products file")
  case Nil
  with assms(4) have "file' = file"
    by (simp add: change_product_def get_all_products_def)
  with assms(1) show ?thesis by simp
next
  case (Cons R rest)
  then have "load_products file' = merge_items R U # rest"
    using assms(4)
    by (auto simp: change_product_def get_all_products_def save_products_def Let_def
        load_products_def)
  moreover have "sku (merge_items R U) = sku R"
    using assms(2,3) by (simp add: sku_def map_of_merge_items)
  ultimately show ?thesis using assms(1) Cons by (simp add: skus_unique_def)
qed

lemma sku_of_created:
  "sku (AList.update ''created_at'' c (AList.update ''id'' i (Product_model_dump fo product)))
     = Some (JStr (p_sku product))"
  by (simp add: sku_def update_conv' Product_model_dump_def)

lemma Product_validate_Inr: "Product_validate body = Inr product \<Longrightarrow> product = body"
  by (auto simp: Product_validate_def Let_def split: if_splits)

lemma Update_Product_validate_Inr:
  "Update_Product_validate body = Inr payload \<Longrightarrow> payload = body"
  by (auto simp: Update_Product_validate_def Let_def split: if_splits)

lemma skus_unique_create:
  assumes "skus_unique file" and "create_product fo uuid4 utcnow product file = (r, file')"
  shows "skus_unique file'"
proof -
  let ?d = "AList.update ''created_at'' (JStr (utcnow @ ''Z''))
              (AList.update ''id'' (JStr uuid4) (Product_model_dump fo product))"
  obtain r0 f0 where a: "add_product ?d file = (r0, f0)" by (cases "add_product ?d file")
  have "skus_unique f0" using skus_unique_add[OF assms(1) sku_of_created a] .
  moreover have "file' = f0"
    using assms(2) a by (auto simp: create_product_def Let_def split: sum.splits error.splits)
  ultimately show ?thesis by simp
qed

lemma skus_unique_update:
  assumes "skus_unique file" and "update_product fo pid payload file = (r, file')"
  shows "skus_unique file'"
proof (cases "Update_Product_model_dump fo payload")
  case (Inl e)
  with assms show ?thesis by (simp add: update_product_def)
next
  case (Inr d)
  obtain r0 f0 where c: "change_product pid d file = (r0, f0)"
    by (cases "change_product pid d file")
  have "skus_unique f0"
    using skus_unique_change[OF assms(1) Update_Product_model_dump_distinct[OF Inr]
        Update_Product_model_dump_no_sku[OF Inr] c] .
  moreover have "file' = f0"
    using assms(2) Inr c by (auto simp: update_product_def split: sum.splits error.splits)
  ultimately show ?thesis by simp
qed

lemma patch_product_eq: "patch_product = update_product"
  by (intro ext) (simp add: patch_product_def update_product_def)

lemma reachable_skus_unique: "reachable file \<Longrightarrow> skus_unique file"
proof (induction rule: reachable.induct)
  case absent
  show ?case by (simp add: skus_unique_def load_products_def)
next
  case empty
  show ?case by (simp add: skus_unique_def load_products_def)
next
  case (post f0 fo uuid4 utcnow body result f1)
  show ?case
  proof (cases "Product_validate body")
    case (Inl e)
    with post show ?thesis by (simp add: post_products_def)
  next
    case (Inr product)
    with post have "create_product fo uuid4 utcnow product f0 = (result, f1)"
      by (simp add: post_products_def)
    then show ?thesis using skus_unique_create post.IH by blast
  qed
next
  case (delete f0 product_id deleted f1)
  obtain r0 f2 where a: "remove_product product_id f0 = (r0, f2)"
    by (cases "remove_product product_id f0")
  have "f1 = f2"
    using delete(2) a by (auto simp: delete_product_def split: sum.splits error.splits)
  then show ?case using skus_unique_remove[OF delete.IH a] by simp
next
  case (put f0 fo product_id payload updated f1)
  show ?case
  proof (cases "Update_Product_validate payload")
    case (Inl e)
    with put show ?thesis by (simp add: put_products_def)
  next
    case (Inr p)
    with put have "update_product fo product_id p f0 = (updated, f1)"
      by (simp add: put_products_def)
    then show ?thesis using skus_unique_update put.IH by blast
  qed
next
  case (patch f0 fo product_id payload updated f1)
  show ?case
  proof (cases "Update_Product_validate payload")
    case (Inl e)
    with patch show ?thesis by (simp add: patch_products_def)
  next
    case (Inr p)
    with patch have "update_product fo product_id p f0 = (updated, f1)"
      by (simp add: patch_products_def patch_product_eq)
    then show ?thesis using skus_unique_update patch.IH by blast
  qed
qed

section \<open>The worked examples, evaluated\<close>

lemma mouse_valid: "Product_validate mouse = Inr mouse"
  by (simp add: Product_validate_def Product_checks_def mouse_def acme_def violations_def
      under_def opt_ok_def currencies_def Dimensions_cm_checks_def Seller_checks_def
      Seller_validate_seller_email_domain_def Seller_allowed_domains_def check_discount_def
      Let_def)

lemma mouse_dump:
  "AList.update ''created_at'' (JStr (''2024-05-01T10:00:00'' @ ''Z''))
     (AList.update ''id'' (JStr ''7c9e6679-7425-40de-944b-e07fc1f90ae7'')
        (Product_model_dump exact_ops mouse)) = stored_mouse"
  by (simp add: Product_model_dump_def mouse_def acme_def stored_mouse_def json_opt_def JInt_def
      Product_discounted_price_def Product_volume_cm3_def exact_ops_def round_half_even_def
      Dimensions_cm_model_dump_def Seller_model_dump_def Let_def)

lemma post_mouse:
  "post_products exact_ops ''7c9e6679-7425-40de-944b-e07fc1f90ae7'' ''2024-05-01T10:00:00''
     mouse None = (Inr (Product_model_dump exact_ops mouse), Some [stored_mouse])"
  by (simp add: post_products_def mouse_valid create_product_def mouse_dump[simplified] Let_def
      add_product_def get_all_products_def load_products_def save_products_def)

lemma reprice_valid: "Update_Product_validate reprice = Inr reprice"
  by (simp add: Update_Product_validate_def Update_Product_checks_def reprice_def violations_def
      under_def opt_ok_def attr_def Dimensions_cm_checks_def check_discount_def Let_def)

section \<open>SKU uniqueness\<close>

lemma any_sku_found:
  assumes "p \<in> set ps" and "map_of p ''sku'' = Some a" and "map_of product ''sku'' = Some b"
    and "py_eq a b"
  shows "any_sku product ps \<noteq> Inr False"
  using assms by (induction ps) (auto split: option.splits)

lemma add_product_existing:
  assumes "p \<in> set (load_products g)" and "map_of p ''sku'' = Some a"
    and "map_of product ''sku'' = Some b" and "py_eq a b"
  shows "\<exists>e. add_product product g = (Inl e, g)"
  using any_sku_found[OF assms]
  by (auto simp: add_product_def Let_def get_all_products_def
      split: sum.splits bool.splits option.splits)

text \<open>
  C6. In every state of the file, \<^verbatim>\<open>add_product\<close> of a product whose SKU equals the SKU
  of a stored record fails and leaves the file exactly as it was. In every state the
  service reaches, every record has a SKU and no two records the same one; there the
  failure is the \<^verbatim>\<open>ValueError\<close> of \<^verbatim>\<open>add_product\<close>, and a valid POST of such a product is
  answered with the status 400.
\<close>

theorem sku_uniqueness:
  assumes "reachable f0"
  shows "skus_unique f0
         \<and> (\<forall>product s.
               sku product = Some (JStr s) \<and> Some (JStr s) \<in> set (map sku (load_products f0))
               \<longrightarrow> add_product product f0
                     = (Inl (ValueError [Lit ''Product with SKU '', Fmt (JStr s),
                                         Lit '' already exists.'']), f0))
         \<and> (\<forall>fo uuid4 utcnow body.
               Product_validate body = Inr body
               \<and> Some (JStr (p_sku body)) \<in> set (map sku (load_products f0))
               \<longrightarrow> post_products fo uuid4 utcnow body f0
                     = (Inl (HTTPException 400 [Lit ''Product with SKU '', Fmt (JStr (p_sku body)),
                                                Lit '' already exists.'']), f0))
         \<and> (\<forall>g product p a b.
               p \<in> set (load_products g) \<and> map_of p ''sku'' = Some a
               \<and> map_of product ''sku'' = Some b \<and> py_eq a b
               \<longrightarrow> (\<exists>e. add_product product g = (Inl e, g)))"
proof -
  have inv: "skus_unique f0" using assms by (rule reachable_skus_unique)
  have add: "add_product product f0
               = (Inl (ValueError [Lit ''Product with SKU '', Fmt (JStr s),
                                   Lit '' already exists.'']), f0)"
    if "sku product = Some (JStr s)" "Some (JStr s) \<in> set (map sku (load_products f0))"
    for product s
    using add_product_str_sku[OF inv that(1)] that(2) by simp
  have post: "post_products fo uuid4 utcnow body f0
          = (Inl (HTTPException 400 [Lit ''Product with SKU '', Fmt (JStr (p_sku body)),
                                     Lit '' already exists.'']), f0)"
    if "Product_validate body = Inr body"
      "Some (JStr (p_sku body)) \<in> set (map sku (load_products f0))"
    for fo uuid4 utcnow body
    using add[OF sku_of_created[of "JStr (utcnow @ ''Z'')" "JStr uuid4" fo body] that(2)] that(1)
    by (simp add: post_products_def create_product_def Let_def)
  have every: "\<exists>e. add_product product g = (Inl e, g)"
    if "p \<in> set (load_products g)" "map_of p ''sku'' = Some a"
      "map_of product ''sku'' = Some b" "py_eq a b"
    for g product p a b
    using add_product_existing[OF that] .
  from inv add post every show ?thesis by blast
qed

theorem sku_uniqueness_witness:
  "reachable (Some [stored_mouse])
   \<and> skus_unique (Some [stored_mouse])
   \<and> Product_validate mouse = Inr mouse
   \<and> Some (JStr (p_sku mouse)) \<in> set (map sku (load_products (Some [stored_mouse])))
   \<and> post_products exact_ops ''16fd2706-8baf-433b-82eb-8c7fada847da'' ''2024-05-02T09:30:00''
        mouse (Some [stored_mouse])
       = (Inl (HTTPException 400 [Lit ''Product with SKU '', Fmt (JStr ''ABCD12345''),
                                  Lit '' already exists.'']), Some [stored_mouse])"
proof -
  have r: "reachable (Some [stored_mouse])"
    using reachable.post[OF reachable.absent post_mouse] .
  have m: "Some (JStr (p_sku mouse)) \<in> set (map sku (load_products (Some [stored_mouse])))"
    by (simp add: load_products_def sku_def stored_mouse_def mouse_def)
  have s: "p_sku mouse = ''ABCD12345''" by (simp add: mouse_def)
  from sku_uniqueness[OF r] have u: "skus_unique (Some [stored_mouse])"
    and p: "\<forall>fo uuid4 utcnow body.
               Product_validate body = Inr body
               \<and> Some (JStr (p_sku body)) \<in> set (map sku (load_products (Some [stored_mouse])))
               \<longrightarrow> post_products fo uuid4 utcnow body (Some [stored_mouse])
                     = (Inl (HTTPException 400 [Lit ''Product with SKU '', Fmt (JStr (p_sku body)),
                                                Lit '' already exists.'']), Some [stored_mouse])"
    by blast+
  from p m mouse_valid
  have "post_products exact_ops ''16fd2706-8baf-433b-82eb-8c7fada847da'' ''2024-05-02T09:30:00''
          mouse (Some [stored_mouse])
        = (Inl (HTTPException 400 [Lit ''Product with SKU '', Fmt (JStr (p_sku mouse)),
                                   Lit '' already exists.'']), Some [stored_mouse])"
    by blast
  then show ?thesis using r u m mouse_valid by (simp only: s simp_thms)
qed

section \<open>Updates through the API\<close>

lemma reprice_dump:
  "Update_Product_model_dump exact_ops reprice =
     Inr [(''id'', JStr ''7c9e6679-7425-40de-944b-e07fc1f90ae7''),
          (''name'', JNull),
          (''category'', JNull),
          (''price'', JNum 50),
          (''currency'', JNull),
          (''stock'', JNull),
          (''dimensions_cm'', JObj [(''length'', JNum 10), (''width'', JNum 6), (''height'', JNum 3)]),
          (''seller'', JNull),
          (''created_at'', JNull),
          (''discounted_price'', JNull),
          (''volume_cm3'', JNum 180)]"
  by (simp add: Update_Product_model_dump_def Update_Product_fields_def reprice_def given_def
      json_opt_def Update_Product_discounted_price_def Update_Product_volume_cm3_def attr_def
      exact_ops_def round_half_even_def Dimensions_cm_model_dump_def Let_def)

lemma put_reprice:
  "put_products exact_ops ''7c9e6679-7425-40de-944b-e07fc1f90ae7'' reprice (Some [stored_mouse])
     = (Inr repriced_mouse, Some [repriced_mouse])"
  by (simp add: put_products_def reprice_valid update_product_def reprice_dump
      change_product_nonempty stored_mouse_def repriced_mouse_def)

lemma reprice_as_other_valid: "Update_Product_validate reprice_as_other = Inr reprice_as_other"
  by (simp add: Update_Product_validate_def Update_Product_checks_def reprice_as_other_def
      reprice_def violations_def under_def opt_ok_def attr_def Dimensions_cm_checks_def
      check_discount_def Let_def)

lemma reprice_as_other_dump:
  "Update_Product_model_dump exact_ops reprice_as_other =
     Inr [(''id'', JStr ''16fd2706-8baf-433b-82eb-8c7fada847da''),
          (''name'', JNull),
          (''category'', JNull),
          (''price'', JNum 50),
          (''currency'', JNull),
          (''stock'', JNull),
          (''dimensions_cm'', JObj [(''length'', JNum 10), (''width'', JNum 6), (''height'', JNum 3)]),
          (''seller'', JNull),
          (''created_at'', JNull),
          (''discounted_price'', JNull),
          (''volume_cm3'', JNum 180)]"
  by (simp add: Update_Product_model_dump_def Update_Product_fields_def reprice_as_other_def
      reprice_def given_def
      json_opt_def Update_Product_discounted_price_def Update_Product_volume_cm3_def attr_def
      exact_ops_def round_half_even_def Dimensions_cm_model_dump_def Let_def)

text \<open>
  C4. The body of an update carries an \<^verbatim>\<open>id\<close> of its own, and the merge writes it like
  any other key: a PUT for the stored identifier \<^verbatim>\<open>7c9e6679-...\<close> whose body names
  \<^verbatim>\<open>16fd2706-...\<close> leaves the record with the identifier \<^verbatim>\<open>16fd2706-...\<close>.
\<close>

theorem update_overwrites_identifier:
  "map_of stored_mouse ''id'' = Some (JStr ''7c9e6679-7425-40de-944b-e07fc1f90ae7'')
   \<and> put_products exact_ops ''7c9e6679-7425-40de-944b-e07fc1f90ae7'' reprice_as_other
        (Some [stored_mouse])
       = (Inr (AList.update ''id'' (JStr ''16fd2706-8baf-433b-82eb-8c7fada847da'') repriced_mouse),
          Some [AList.update ''id'' (JStr ''16fd2706-8baf-433b-82eb-8c7fada847da'') repriced_mouse])
   \<and> map_of (AList.update ''id'' (JStr ''16fd2706-8baf-433b-82eb-8c7fada847da'') repriced_mouse)
        ''id'' = Some (JStr ''16fd2706-8baf-433b-82eb-8c7fada847da'')"
  by (simp add: put_products_def reprice_as_other_valid update_product_def reprice_as_other_dump
      change_product_nonempty stored_mouse_def repriced_mouse_def)


section \<open>Derived fields\<close>

lemma update_product_success:
  assumes "update_product fo pid payload file = (Inr updated, file')"
  shows "\<exists>d R rest. Update_Product_model_dump fo payload = Inr d
           \<and> load_products file = R # rest \<and> updated = merge_items R d
           \<and> load_products file' = merge_items R d # rest"
proof (cases "Update_Product_model_dump fo payload")
  case (Inl e)
  with assms show ?thesis by (simp add: update_product_def)
next
  case (Inr d)
  obtain r0 f0 where c: "change_product pid d file = (r0, f0)"
    by (cases "change_product pid d file")
  with assms Inr have "r0 = Inr updated" "f0 = file'"
    by (auto simp: update_product_def split: sum.splits error.splits)
  with c have "change_product pid d file = (Inr updated, file')" by simp
  from change_product_cases[OF this] Inr show ?thesis by blast
qed

lemma find_product_stored: "find_product pid ps = Inr p \<Longrightarrow> p \<in> set ps"
  by (induction ps) (auto split: option.splits if_splits)

lemma create_product_success:
  assumes "create_product fo uuid4 utcnow product file = (Inr created, file')"
  shows "load_products file' = load_products file
           @ [AList.update ''created_at'' (JStr (utcnow @ ''Z''))
                (AList.update ''id'' (JStr uuid4) (Product_model_dump fo product))]"
proof -
  let ?d = "AList.update ''created_at'' (JStr (utcnow @ ''Z''))
              (AList.update ''id'' (JStr uuid4) (Product_model_dump fo product))"
  obtain r0 f0 where a: "add_product ?d file = (r0, f0)" by (cases "add_product ?d file")
  with assms have "f0 = file'" and "\<exists>x. r0 = Inr x"
    by (auto simp: create_product_def Let_def split: sum.splits error.splits)
  with a show ?thesis
    by (auto simp: add_product_def Let_def get_all_products_def save_products_def
        load_products_def split: sum.splits bool.splits option.splits)
qed

lemma derived_of_created:
  "map_of (AList.update ''created_at'' c (AList.update ''id'' i (Product_model_dump fo product)))
     ''discounted_price'' = Some (json_opt JNum (Product_discounted_price fo product))"
  "map_of (AList.update ''created_at'' c (AList.update ''id'' i (Product_model_dump fo product)))
     ''volume_cm3'' = Some (JNum (Product_volume_cm3 fo product))"
  by (simp_all add: update_conv' Product_model_dump_def)

lemma map_of_dump_computed:
  assumes "Update_Product_model_dump fo self = Inr d"
  shows "\<exists>dp vol. Update_Product_discounted_price fo self = Inr dp
           \<and> Update_Product_volume_cm3 fo self = Inr vol
           \<and> map_of d ''discounted_price'' = Some (json_opt JNum dp)
           \<and> map_of d ''volume_cm3'' = Some (JNum vol)"
proof -
  obtain dp vol where *: "Update_Product_discounted_price fo self = Inr dp"
    "Update_Product_volume_cm3 fo self = Inr vol"
    "d = set_fields (Update_Product_fields self)
           @ [(''discounted_price'', json_opt JNum dp), (''volume_cm3'', JNum vol)]"
    using Update_Product_model_dump_eq[OF assms] by blast
  have "map_of (set_fields (Update_Product_fields self)) ''discounted_price'' = None"
    "map_of (set_fields (Update_Product_fields self)) ''volume_cm3'' = None"
    using not_a_field(1,2)[of self] by (simp_all only: map_of_eq_None_iff set_map not_False_eq_True)
  then show ?thesis using * by (simp add: map_add_def)
qed

text \<open>
  C5, as the code has it. The derived fields are computed when a request body is
  serialized, and they are persisted. The record \<^verbatim>\<open>create_product\<close> appends holds
  \<^verbatim>\<open>discounted_price\<close> and \<^verbatim>\<open>volume_cm3\<close> with the values computed from the posted product.
  An update writes the \<^verbatim>\<open>volume_cm3\<close> of its payload into the record, and the payload's
  \<^verbatim>\<open>discounted_price\<close> when it is not \<^verbatim>\<open>None\<close>. A read by identifier returns a record of
  the file as it is stored: nothing is recomputed.
\<close>

theorem derived_fields_are_stored:
  "(create_product fo uuid4 utcnow product f0 = (Inr created, f1)
      \<longrightarrow> butlast (load_products f1) = load_products f0
          \<and> map_of (last (load_products f1)) ''discounted_price''
              = Some (json_opt JNum (Product_discounted_price fo product))
          \<and> map_of (last (load_products f1)) ''volume_cm3''
              = Some (JNum (Product_volume_cm3 fo product)))
   \<and> (update_product fo product_id payload f0 = (Inr updated, f2)
      \<longrightarrow> hd (load_products f2) = updated
          \<and> (\<exists>vol. Update_Product_volume_cm3 fo payload = Inr vol
                \<and> map_of updated ''volume_cm3'' = Some (JNum vol))
          \<and> (\<exists>dp. Update_Product_discounted_price fo payload = Inr dp
                \<and> (\<forall>x. dp = Some x \<longrightarrow> map_of updated ''discounted_price'' = Some (JNum x))))
   \<and> (get_product_by_id product_id f0 = Inr found \<longrightarrow> found \<in> set (load_products f0))"
proof (intro conjI impI)
  assume c: "create_product fo uuid4 utcnow product f0 = (Inr created, f1)"
  note s = create_product_success[OF c]
  show "butlast (load_products f1) = load_products f0" by (simp add: s)
  show "map_of (last (load_products f1)) ''discounted_price''
          = Some (json_opt JNum (Product_discounted_price fo product))"
    by (simp only: s last_snoc derived_of_created)
  show "map_of (last (load_products f1)) ''volume_cm3''
          = Some (JNum (Product_volume_cm3 fo product))"
    by (simp only: s last_snoc derived_of_created)
next
  assume u: "update_product fo product_id payload f0 = (Inr updated, f2)"
  then obtain d R rest where *: "Update_Product_model_dump fo payload = Inr d"
    "load_products f0 = R # rest" "updated = merge_items R d"
    "load_products f2 = merge_items R d # rest"
    using update_product_success by blast
  obtain dp vol where c: "Update_Product_discounted_price fo payload = Inr dp"
    "Update_Product_volume_cm3 fo payload = Inr vol"
    "map_of d ''discounted_price'' = Some (json_opt JNum dp)"
    "map_of d ''volume_cm3'' = Some (JNum vol)"
    using map_of_dump_computed[OF *(1)] by blast
  note dist = Update_Product_model_dump_distinct[OF *(1)]
  show "hd (load_products f2) = updated" using * by simp
  have "map_of updated ''volume_cm3'' = Some (JNum vol)"
    using c(4) by (simp add: *(3) map_of_merge_items[OF dist])
  then show "\<exists>vol. Update_Product_volume_cm3 fo payload = Inr vol
                \<and> map_of updated ''volume_cm3'' = Some (JNum vol)"
    using c(2) by blast
  have "\<forall>x. dp = Some x \<longrightarrow> map_of updated ''discounted_price'' = Some (JNum x)"
    using c(3) by (simp add: *(3) map_of_merge_items[OF dist] json_opt_def)
  then show "\<exists>dp. Update_Product_discounted_price fo payload = Inr dp
                \<and> (\<forall>x. dp = Some x \<longrightarrow> map_of updated ''discounted_price'' = Some (JNum x))"
    using c(1) by blast
next
  assume "get_product_by_id product_id f0 = Inr found"
  then show "found \<in> set (load_products f0)"
    by (auto simp: get_product_by_id_def get_all_products_def split: if_splits
        dest: find_product_stored)
qed

lemma create_mouse:
  "create_product exact_ops ''7c9e6679-7425-40de-944b-e07fc1f90ae7'' ''2024-05-01T10:00:00''
     mouse None = (Inr (Product_model_dump exact_ops mouse), Some [stored_mouse])"
  using post_mouse by (simp add: post_products_def mouse_valid)

lemma get_repriced:
  "get_product_by_id ''7c9e6679-7425-40de-944b-e07fc1f90ae7'' (Some [repriced_mouse])
     = Inr repriced_mouse"
  by (simp add: get_product_by_id_def get_all_products_def load_products_def repriced_mouse_def)

lemma update_half_price:
  "update_product exact_ops ''7c9e6679-7425-40de-944b-e07fc1f90ae7'' half_price
     (Some [stored_mouse]) = (Inr half_priced_mouse, Some [half_priced_mouse])"
  by (simp add: update_product_def Update_Product_model_dump_def Update_Product_fields_def
      half_price_def reprice_def given_def json_opt_def Update_Product_discounted_price_def
      Update_Product_volume_cm3_def attr_def exact_ops_def round_half_even_def
      Dimensions_cm_model_dump_def Let_def change_product_nonempty stored_mouse_def
      half_priced_mouse_def)

lemma get_half_priced:
  "get_product_by_id ''7c9e6679-7425-40de-944b-e07fc1f90ae7'' (Some [half_priced_mouse])
     = Inr half_priced_mouse"
  by (simp add: get_product_by_id_def get_all_products_def load_products_def
      half_priced_mouse_def)

lemma half_price_discounted:
  "Update_Product_discounted_price exact_ops half_price = Inr (Some 25)"
  by (simp add: Update_Product_discounted_price_def half_price_def reprice_def attr_def
      exact_ops_def round_half_even_def Let_def)

theorem derived_fields_are_stored_witness:
  "create_product exact_ops ''7c9e6679-7425-40de-944b-e07fc1f90ae7'' ''2024-05-01T10:00:00''
     mouse None = (Inr (Product_model_dump exact_ops mouse), Some [stored_mouse])
   \<and> map_of (last (load_products (Some [stored_mouse]))) ''discounted_price'' = Some (JNum 15)
   \<and> map_of (last (load_products (Some [stored_mouse]))) ''volume_cm3'' = Some (JNum 180)
   \<and> update_product exact_ops ''7c9e6679-7425-40de-944b-e07fc1f90ae7'' half_price
        (Some [stored_mouse]) = (Inr half_priced_mouse, Some [half_priced_mouse])
   \<and> Update_Product_discounted_price exact_ops half_price = Inr (Some 25)
   \<and> hd (load_products (Some [half_priced_mouse])) = half_priced_mouse
   \<and> map_of half_priced_mouse ''volume_cm3'' = Some (JNum 180)
   \<and> map_of half_priced_mouse ''discounted_price'' = Some (JNum 25)
   \<and> get_product_by_id ''7c9e6679-7425-40de-944b-e07fc1f90ae7'' (Some [half_priced_mouse])
       = Inr half_priced_mouse
   \<and> half_priced_mouse \<in> set (load_products (Some [half_priced_mouse]))"
  using derived_fields_are_stored[of exact_ops "''7c9e6679-7425-40de-944b-e07fc1f90ae7''"
      "''2024-05-01T10:00:00''" mouse None "Product_model_dump exact_ops mouse"
      "Some [stored_mouse]" "''7c9e6679-7425-40de-944b-e07fc1f90ae7''" half_price
      half_priced_mouse "Some [half_priced_mouse]" half_priced_mouse]
    derived_fields_are_stored[of exact_ops "''7c9e6679-7425-40de-944b-e07fc1f90ae7''"
      "''2024-05-01T10:00:00''" mouse "Some [stored_mouse]" "Product_model_dump exact_ops mouse"
      "Some [stored_mouse]" "''7c9e6679-7425-40de-944b-e07fc1f90ae7''" half_price
      half_priced_mouse "Some [half_priced_mouse]" half_priced_mouse]
    derived_fields_are_stored[of exact_ops "''7c9e6679-7425-40de-944b-e07fc1f90ae7''"
      "''2024-05-01T10:00:00''" mouse "Some [half_priced_mouse]"
      "Product_model_dump exact_ops mouse"
      "Some [stored_mouse]" "''7c9e6679-7425-40de-944b-e07fc1f90ae7''" half_price
      half_priced_mouse "Some [half_priced_mouse]" half_priced_mouse]
    create_mouse update_half_price get_half_priced half_price_discounted
  by (simp add: load_products_def stored_mouse_def half_priced_mouse_def)

text \<open>
  C5, as the claim states it, fails: the record written for the posted product holds both
  derived fields, and after the price is updated to 50 a read returns the stored
  \<^verbatim>\<open>discounted_price\<close> 15, computed from the old price 20 at 25 percent.
\<close>

theorem derived_fields_persisted_counterexample:
  "post_products exact_ops ''7c9e6679-7425-40de-944b-e07fc1f90ae7'' ''2024-05-01T10:00:00''
     mouse None = (Inr (Product_model_dump exact_ops mouse), Some [stored_mouse])
   \<and> map_of stored_mouse ''discounted_price'' = Some (JNum 15)
   \<and> map_of stored_mouse ''volume_cm3'' = Some (JNum 180)
   \<and> put_products exact_ops ''7c9e6679-7425-40de-944b-e07fc1f90ae7'' reprice (Some [stored_mouse])
       = (Inr repriced_mouse, Some [repriced_mouse])
   \<and> get_product_by_id ''7c9e6679-7425-40de-944b-e07fc1f90ae7'' (Some [repriced_mouse])
       = Inr repriced_mouse
   \<and> map_of repriced_mouse ''price'' = Some (JNum 50)
   \<and> map_of repriced_mouse ''discount_percent'' = Some (JNum 25)
   \<and> map_of repriced_mouse ''discounted_price'' = Some (JNum 15)"
  using post_mouse put_reprice get_repriced
  by (simp add: stored_mouse_def repriced_mouse_def)

section \<open>Validation and the merged record\<close>

lemma merged_check:
  assumes "distinct (map fst d)" and "C (map_of R k)"
    and "\<And>v. map_of d k = Some v \<Longrightarrow> v \<noteq> JNull \<Longrightarrow> (\<forall>u. v \<noteq> JObj u) \<and> C (Some v)"
  shows "C (map_of (merge_items R d) k)"
proof (cases "map_of d k")
  case None
  with assms(1,2) show ?thesis by (simp add: map_of_merge_items)
next
  case (Some v)
  show ?thesis
  proof (cases "v = JNull")
    case True
    with Some assms(1,2) show ?thesis by (simp add: map_of_merge_items)
  next
    case False
    from assms(3)[OF Some False] have "\<forall>u. v \<noteq> JObj u" and c: "C (Some v)" by blast+
    then have "map_of (merge_items R d) k = Some v"
      using Some False assms(1) by (cases v) (simp_all add: map_of_merge_items)
    with c show ?thesis by simp
  qed
qed

lemma merged_check_obj:
  assumes "distinct (map fst d)" and "C (map_of R k)"
    and "\<And>v. map_of d k = Some v \<Longrightarrow> v \<noteq> JNull \<Longrightarrow>
           \<exists>u. v = JObj u \<and> C (Some (JObj u)) \<and> (\<forall>r. C (Some (JObj (dict_update r u))))"
  shows "C (map_of (merge_items R d) k)"
proof (cases "map_of d k")
  case None
  with assms(1,2) show ?thesis by (simp add: map_of_merge_items)
next
  case (Some v)
  show ?thesis
  proof (cases "v = JNull")
    case True
    with Some assms(1,2) show ?thesis by (simp add: map_of_merge_items)
  next
    case False
    from assms(3)[OF Some False] obtain u where u: "v = JObj u" "C (Some (JObj u))"
      "\<forall>r. C (Some (JObj (dict_update r u)))" by blast
    show ?thesis
      using Some u assms(1)
      by (auto simp: map_of_merge_items split: option.splits json.splits)
  qed
qed

lemma merged_required:
  assumes "distinct (map fst d)" and "required Q (map_of R k)"
    and "\<And>v. map_of d k = Some v \<Longrightarrow> v \<noteq> JNull \<Longrightarrow> (\<forall>u. v \<noteq> JObj u) \<and> Q v"
  shows "required Q (map_of (merge_items R d) k)"
  using merged_check[where C="required Q" and d=d and R=R and k=k] assms
  by (simp add: required_def)

lemma merged_optional:
  assumes "distinct (map fst d)" and "optional Q (map_of R k)"
    and "\<And>v. map_of d k = Some v \<Longrightarrow> v \<noteq> JNull \<Longrightarrow> (\<forall>u. v \<noteq> JObj u) \<and> Q v"
  shows "optional Q (map_of (merge_items R d) k)"
  using merged_check[where C="optional Q" and d=d and R=R and k=k] assms
  by (simp add: optional_def)

lemma merged_defaulted:
  assumes "distinct (map fst d)" and "defaulted Q (map_of R k)"
    and "\<And>v. map_of d k = Some v \<Longrightarrow> v \<noteq> JNull \<Longrightarrow> (\<forall>u. v \<noteq> JObj u) \<and> Q v"
  shows "defaulted Q (map_of (merge_items R d) k)"
  using merged_check[where C="defaulted Q" and d=d and R=R and k=k] assms
  by (simp add: defaulted_def)

lemma merged_required_obj:
  assumes "distinct (map fst d)" and "required (obj_of P) (map_of R k)"
    and "\<And>v. map_of d k = Some v \<Longrightarrow> v \<noteq> JNull \<Longrightarrow>
           \<exists>u. v = JObj u \<and> P u \<and> (\<forall>r. P (dict_update r u))"
  shows "required (obj_of P) (map_of (merge_items R d) k)"
  using merged_check_obj[where C="required (obj_of P)" and d=d and R=R and k=k] assms
  by (simp add: required_def obj_of_def)

lemma violations_Nil: "violations (under n cs) = [] \<longleftrightarrow> list_all snd cs"
  by (induction cs) (auto simp: violations_def under_def)

lemma list_all_snd_under: "list_all snd (under n cs) = list_all snd cs"
  by (induction cs) (auto simp: under_def)

lemma Update_Product_validate_checks:
  assumes "Update_Product_validate U = Inr U'"
  shows "list_all snd (Update_Product_checks U)" "check_discount (attr (u_discount_percent U))"
  using assms
  by (auto simp: Update_Product_validate_def Let_def violations_Nil split: if_splits)

lemma Product_validate_checks:
  assumes "Product_validate P = Inr P'"
  shows "list_all snd (Product_checks P)" "check_discount (p_discount_percent P)"
  using assms
  by (auto simp: Product_validate_def Let_def violations_Nil split: if_splits)


lemma dump_lookup:
  assumes "Update_Product_model_dump fo U = Inr d"
  shows "map_of d ''id'' = Some (JStr (u_id U))"
    "map_of d ''sku'' = None"
    "map_of d ''name'' = Some (json_opt JStr (u_name U))"
    "map_of d ''description'' = given JStr (u_description U)"
    "map_of d ''category'' = Some (json_opt JStr (u_category U))"
    "map_of d ''brand'' = given JStr (u_brand U)"
    "map_of d ''price'' = Some (json_opt JNum (u_price U))"
    "map_of d ''currency'' = Some (json_opt JStr (u_currency U))"
    "map_of d ''discount_percent'' = given JNum (u_discount_percent U)"
    "map_of d ''stock'' = Some (json_opt JInt (u_stock U))"
    "map_of d ''is_active'' = given JBool (u_is_active U)"
    "map_of d ''rating'' = given JNum (u_rating U)"
    "map_of d ''tags'' = given JTags (u_tags U)"
    "map_of d ''image_url'' = given JStr (u_image_url U)"
    "map_of d ''dimensions_cm''
       = Some (json_opt (\<lambda>d. JObj (Dimensions_cm_model_dump d)) (u_dimensions_cm U))"
    "map_of d ''seller'' = Some (json_opt (\<lambda>s. JObj (Seller_model_dump s)) (u_seller U))"
    "map_of d ''created_at'' = Some (json_opt JStr (u_created_at U))"
  by (simp_all add: map_of_Update_Product_model_dump[OF assms] Update_Product_fields_def
      split: option.splits)

lemma tags_of_JTags: "tags_of (JTags tags)"
  by (induction tags) (simp_all add: tags_of_def JTags_def str_of_def)

lemma Dimensions_cm_dumped:
  assumes "list_all snd (Dimensions_cm_checks x)"
  shows "Dimensions_cm_constraints (dict_update r (Dimensions_cm_model_dump x))"
    "Dimensions_cm_constraints (Dimensions_cm_model_dump x)"
  using assms
  by (simp_all add: Dimensions_cm_constraints_def Dimensions_cm_checks_def
      Dimensions_cm_model_dump_def map_of_dict_update required_def num_of_def update_conv')

lemma Seller_dumped:
  assumes "list_all snd (Seller_checks x)"
  shows "Seller_constraints (dict_update r (Seller_model_dump x))"
    "Seller_constraints (Seller_model_dump x)"
  using assms
  by (simp_all add: Seller_constraints_def Seller_checks_def
      Seller_model_dump_def map_of_dict_update required_def str_of_def update_conv')


lemma merge_preserves_constraints:
  assumes R: "Product_constraints R"
    and valid: "Update_Product_validate U = Inr U'"
    and dump: "Update_Product_model_dump fo U = Inr d"
  shows "Product_constraints (merge_items R d)"
proof -
  note dist = Update_Product_model_dump_distinct[OF dump]
  note look = dump_lookup[OF dump]
  from Update_Product_validate_checks[OF valid]
  have name: "opt_ok (\<lambda>s. 1 \<le> length s \<and> length s \<le> 50) (u_name U)"
    and description: "opt_ok (\<lambda>s. length s \<le> 500) (attr (u_description U))"
    and category: "opt_ok (\<lambda>s. 1 \<le> length s \<and> length s \<le> 30) (u_category U)"
    and brand: "opt_ok (\<lambda>s. length s \<le> 30) (attr (u_brand U))"
    and price: "opt_ok (\<lambda>p. 0 \<le> p) (u_price U)"
    and currency: "opt_ok (\<lambda>c. c \<in> currencies) (u_currency U)"
    and stock: "opt_ok (\<lambda>n. 0 \<le> n) (u_stock U)"
    and rating: "opt_ok (\<lambda>r. 0 \<le> r \<and> r \<le> 5) (attr (u_rating U))"
    and dims: "list_all snd (case u_dimensions_cm U of None \<Rightarrow> []
                             | Some x \<Rightarrow> Dimensions_cm_checks x)"
    and seller: "list_all snd (case u_seller U of None \<Rightarrow> [] | Some x \<Rightarrow> Seller_checks x)"
    and discount: "check_discount (attr (u_discount_percent U))"
    by (simp_all add: Update_Product_checks_def list_all_snd_under)
  from R have
    r1: "required (str_of (\<lambda>s. True)) (map_of R ''id'')" and
    r2: "required (str_of (\<lambda>s. 8 \<le> length s \<and> length s \<le> 20)) (map_of R ''sku'')" and
    r3: "required (str_of (\<lambda>s. 1 \<le> length s \<and> length s \<le> 50)) (map_of R ''name'')" and
    r4: "optional (str_of (\<lambda>s. length s \<le> 500)) (map_of R ''description'')" and
    r5: "required (str_of (\<lambda>s. 1 \<le> length s \<and> length s \<le> 30)) (map_of R ''category'')" and
    r6: "optional (str_of (\<lambda>s. length s \<le> 30)) (map_of R ''brand'')" and
    r7: "required (num_of (\<lambda>q. 0 \<le> q)) (map_of R ''price'')" and
    r8: "required (str_of (\<lambda>s. s \<in> currencies)) (map_of R ''currency'')" and
    r9: "optional (num_of (\<lambda>q. 0 \<le> q \<and> q \<le> 100)) (map_of R ''discount_percent'')" and
    r10: "required (num_of (\<lambda>q. 0 \<le> q \<and> q \<in> \<int>)) (map_of R ''stock'')" and
    r11: "defaulted bool_of (map_of R ''is_active'')" and
    r12: "optional (num_of (\<lambda>q. 0 \<le> q \<and> q \<le> 5)) (map_of R ''rating'')" and
    r13: "optional tags_of (map_of R ''tags'')" and
    r14: "optional (str_of (\<lambda>s. True)) (map_of R ''image_url'')" and
    r15: "required (obj_of Dimensions_cm_constraints) (map_of R ''dimensions_cm'')" and
    r16: "required (obj_of Seller_constraints) (map_of R ''seller'')" and
    r17: "required (str_of (\<lambda>s. True)) (map_of R ''created_at'')"
    by (simp_all add: Product_constraints_def)
  have m1: "required (str_of (\<lambda>s. True)) (map_of (merge_items R d) ''id'')"
    by (rule merged_required[OF dist r1]) (simp add: look required_def str_of_def)
  have m2: "required (str_of (\<lambda>s. 8 \<le> length s \<and> length s \<le> 20)) (map_of (merge_items R d) ''sku'')"
    by (rule merged_required[OF dist r2]) (simp add: look)
  have m3: "required (str_of (\<lambda>s. 1 \<le> length s \<and> length s \<le> 50)) (map_of (merge_items R d) ''name'')"
    by (rule merged_required[OF dist r3]) (use name in \<open>auto simp: look required_def str_of_def opt_ok_def
        json_opt_def split: option.splits\<close>)
  have m4: "optional (str_of (\<lambda>s. length s \<le> 500)) (map_of (merge_items R d) ''description'')"
    by (rule merged_optional[OF dist r4]) (use description in \<open>auto simp: look optional_def str_of_def opt_ok_def
        json_opt_def given_def attr_def split: option.splits field.splits\<close>)
  have m5: "required (str_of (\<lambda>s. 1 \<le> length s \<and> length s \<le> 30)) (map_of (merge_items R d) ''category'')"
    by (rule merged_required[OF dist r5]) (use category in \<open>auto simp: look required_def str_of_def opt_ok_def
        json_opt_def split: option.splits\<close>)
  have m6: "optional (str_of (\<lambda>s. length s \<le> 30)) (map_of (merge_items R d) ''brand'')"
    by (rule merged_optional[OF dist r6]) (use brand in \<open>auto simp: look optional_def str_of_def opt_ok_def
        json_opt_def given_def attr_def split: option.splits field.splits\<close>)
  have m7: "required (num_of (\<lambda>q. 0 \<le> q)) (map_of (merge_items R d) ''price'')"
    by (rule merged_required[OF dist r7]) (use price in \<open>auto simp: look required_def num_of_def opt_ok_def
        json_opt_def split: option.splits\<close>)
  have m8: "required (str_of (\<lambda>s. s \<in> currencies)) (map_of (merge_items R d) ''currency'')"
    by (rule merged_required[OF dist r8]) (use currency in \<open>auto simp: look required_def str_of_def opt_ok_def
        json_opt_def split: option.splits\<close>)
  have m9: "optional (num_of (\<lambda>q. 0 \<le> q \<and> q \<le> 100)) (map_of (merge_items R d) ''discount_percent'')"
    by (rule merged_optional[OF dist r9]) (use discount in \<open>auto simp: look optional_def num_of_def
        check_discount_def json_opt_def given_def attr_def split: option.splits field.splits\<close>)
  have m10: "required (num_of (\<lambda>q. 0 \<le> q \<and> q \<in> \<int>)) (map_of (merge_items R d) ''stock'')"
    by (rule merged_required[OF dist r10]) (use stock in \<open>auto simp: look required_def num_of_def opt_ok_def
        JInt_def json_opt_def split: option.splits\<close>)
  have m11: "defaulted bool_of (map_of (merge_items R d) ''is_active'')"
    by (rule merged_defaulted[OF dist r11]) (auto simp: look defaulted_def bool_of_def json_opt_def given_def attr_def split: option.splits field.splits)
  have m12: "optional (num_of (\<lambda>q. 0 \<le> q \<and> q \<le> 5)) (map_of (merge_items R d) ''rating'')"
    by (rule merged_optional[OF dist r12]) (use rating in \<open>auto simp: look optional_def num_of_def opt_ok_def
        json_opt_def given_def attr_def split: option.splits field.splits\<close>)
  have m13: "optional tags_of (map_of (merge_items R d) ''tags'')"
    by (rule merged_optional[OF dist r13]) (auto simp: look optional_def tags_of_JTags[unfolded JTags_def] JTags_def json_opt_def given_def attr_def split: option.splits field.splits)
  have m14: "optional (str_of (\<lambda>s. True)) (map_of (merge_items R d) ''image_url'')"
    by (rule merged_optional[OF dist r14]) (auto simp: look optional_def str_of_def json_opt_def given_def attr_def split: option.splits field.splits)
  have m15: "required (obj_of Dimensions_cm_constraints) (map_of (merge_items R d) ''dimensions_cm'')"
    by (rule merged_required_obj[OF dist r15])
      (use dims in \<open>auto simp: look required_def obj_of_def Dimensions_cm_dumped
        json_opt_def split: option.splits\<close>)
  have m16: "required (obj_of Seller_constraints) (map_of (merge_items R d) ''seller'')"
    by (rule merged_required_obj[OF dist r16])
      (use seller in \<open>auto simp: look required_def obj_of_def Seller_dumped
        json_opt_def split: option.splits\<close>)
  have m17: "required (str_of (\<lambda>s. True)) (map_of (merge_items R d) ''created_at'')"
    by (rule merged_required[OF dist r17]) (auto simp: look required_def str_of_def json_opt_def split: option.splits)
  show ?thesis
    unfolding Product_constraints_def
    using m1 m2 m3 m4 m5 m6 m7 m8 m9 m10 m11 m12 m13 m14 m15 m16 m17 by blast
qed


lemma created_constraints:
  assumes "Product_validate P = Inr P'"
  shows "Product_constraints
           (AList.update ''created_at'' (JStr c) (AList.update ''id'' (JStr i)
              (Product_model_dump fo P)))"
proof -
  from Product_validate_checks[OF assms]
  have checks: "8 \<le> length (p_sku P) \<and> length (p_sku P) \<le> 20"
    "1 \<le> length (p_name P) \<and> length (p_name P) \<le> 50"
    "opt_ok (\<lambda>s. length s \<le> 500) (p_description P)"
    "1 \<le> length (p_category P) \<and> length (p_category P) \<le> 30"
    "opt_ok (\<lambda>s. length s \<le> 30) (p_brand P)"
    "0 \<le> p_price P"
    "p_currency P \<in> currencies"
    "0 \<le> p_stock P"
    "opt_ok (\<lambda>r. 0 \<le> r \<and> r \<le> 5) (p_rating P)"
    and dims: "list_all snd (Dimensions_cm_checks (p_dimensions_cm P))"
    and seller: "list_all snd (Seller_checks (p_seller P))"
    and discount: "check_discount (p_discount_percent P)"
    by (simp_all add: Product_checks_def list_all_snd_under)
  show ?thesis
    unfolding Product_constraints_def
    using checks discount Dimensions_cm_dumped(2)[OF dims] Seller_dumped(2)[OF seller]
    by (auto simp: Product_model_dump_def update_conv' required_def optional_def defaulted_def
        str_of_def num_of_def bool_of_def obj_of_def json_opt_def opt_ok_def check_discount_def
        JInt_def tags_of_JTags split: option.splits)
qed

lemma create_product_failure:
  "create_product fo uuid4 utcnow product f0 = (Inl e, f1) \<Longrightarrow> f1 = f0"
  by (auto simp: create_product_def add_product_def Let_def
      split: sum.splits error.splits bool.splits option.splits)

lemma update_product_failure:
  "update_product fo pid payload f0 = (Inl e, f1) \<Longrightarrow> f1 = f0"
  by (auto simp: update_product_def change_product_def Let_def
      split: sum.splits error.splits list.splits)

lemma constraints_created:
  assumes "list_all Product_constraints (load_products f0)"
    and "Product_validate body = Inr product"
    and "create_product fo uuid4 utcnow product f0 = (r, f1)"
  shows "list_all Product_constraints (load_products f1)"
proof (cases r)
  case (Inl e)
  with assms(3) have "f1 = f0" by (simp add: create_product_failure)
  with assms(1) show ?thesis by simp
next
  case (Inr created)
  have "product = body" using assms(2) by (rule Product_validate_Inr)
  with assms(2) have "Product_validate product = Inr product" by simp
  from created_constraints[OF this] assms(1) assms(3)[unfolded Inr]
  show ?thesis by (simp add: create_product_success)
qed

lemma constraints_updated:
  assumes "list_all Product_constraints (load_products f0)"
    and "Update_Product_validate body = Inr payload"
    and "update_product fo pid payload f0 = (r, f1)"
  shows "list_all Product_constraints (load_products f1)"
proof (cases r)
  case (Inl e)
  with assms(3) have "f1 = f0" by (simp add: update_product_failure)
  with assms(1) show ?thesis by simp
next
  case (Inr updated)
  have p: "payload = body" using assms(2) by (rule Update_Product_validate_Inr)
  from assms(3)[unfolded Inr] obtain d R rest where
    *: "Update_Product_model_dump fo payload = Inr d" "load_products f0 = R # rest"
    "load_products f1 = merge_items R d # rest"
    using update_product_success by blast
  have "Product_constraints R" using assms(1) *(2) by simp
  from merge_preserves_constraints[OF this assms(2)[folded p] *(1)] assms(1) *
  show ?thesis by simp
qed

lemma constraints_removed:
  assumes "list_all Product_constraints (load_products f0)"
    and "remove_product pid f0 = (r, f1)"
  shows "list_all Product_constraints (load_products f1)"
proof (cases "remove_loop pid (load_products f0)")
  case (Inl e)
  with assms show ?thesis by (simp add: remove_product_def get_all_products_def)
next
  case (Inr res)
  show ?thesis
  proof (cases res)
    case None
    with Inr assms show ?thesis by (simp add: remove_product_def get_all_products_def)
  next
    case (Some dr)
    obtain d rest where dr: "dr = (d, rest)" by (cases dr)
    from remove_loop_sublist[of pid "load_products f0" d rest] Inr Some dr
    obtain xs ys where xy: "load_products f0 = xs @ d # ys" "rest = xs @ ys" by auto
    have "f1 = Some rest"
      using assms(2) Inr Some dr
      by (simp add: remove_product_def get_all_products_def save_products_def)
    then show ?thesis using assms(1) xy by (auto simp: load_products_def)
  qed
qed

lemma reachable_constraints: "reachable f \<Longrightarrow> list_all Product_constraints (load_products f)"
proof (induction rule: reachable.induct)
  case absent
  show ?case by (simp add: load_products_def)
next
  case empty
  show ?case by (simp add: load_products_def)
next
  case (post f0 fo uuid4 utcnow body result f1)
  show ?case
  proof (cases "Product_validate body")
    case (Inl e)
    with post show ?thesis by (simp add: post_products_def)
  next
    case (Inr product)
    with post have "create_product fo uuid4 utcnow product f0 = (result, f1)"
      by (simp add: post_products_def)
    from constraints_created[OF post.IH Inr this] show ?thesis .
  qed
next
  case (delete f0 product_id deleted f1)
  obtain r0 f2 where a: "remove_product product_id f0 = (r0, f2)"
    by (cases "remove_product product_id f0")
  have "f1 = f2"
    using delete(2) a by (auto simp: delete_product_def split: sum.splits error.splits)
  then show ?case using constraints_removed[OF delete.IH a] by simp
next
  case (put f0 fo product_id payload updated f1)
  show ?case
  proof (cases "Update_Product_validate payload")
    case (Inl e)
    with put show ?thesis by (simp add: put_products_def)
  next
    case (Inr p)
    with put have "update_product fo product_id p f0 = (updated, f1)"
      by (simp add: put_products_def)
    from constraints_updated[OF put.IH Inr this] show ?thesis .
  qed
next
  case (patch f0 fo product_id payload updated f1)
  show ?case
  proof (cases "Update_Product_validate payload")
    case (Inl e)
    with patch show ?thesis by (simp add: patch_products_def)
  next
    case (Inr p)
    with patch have "update_product fo product_id p f0 = (updated, f1)"
      by (simp add: patch_products_def patch_product_eq)
    from constraints_updated[OF patch.IH Inr this] show ?thesis .
  qed
qed


lemma put_products_rejected:
  "Update_Product_validate body = Inl e \<Longrightarrow> put_products fo pid body f0 = (Inl e, f0)"
  "Update_Product_validate body = Inl e \<Longrightarrow> patch_products fo pid body f0 = (Inl e, f0)"
  by (simp_all add: put_products_def patch_products_def)

lemma constraints_put:
  assumes "list_all Product_constraints (load_products f0)"
  shows "put_products fo pid body f0 = (r, f1) \<Longrightarrow> list_all Product_constraints (load_products f1)"
    and "patch_products fo pid body f0 = (r, f1) \<Longrightarrow> list_all Product_constraints (load_products f1)"
proof -
  show "list_all Product_constraints (load_products f1)" if "put_products fo pid body f0 = (r, f1)"
  proof (cases "Update_Product_validate body")
    case (Inl e)
    with that assms show ?thesis by (simp add: put_products_def)
  next
    case (Inr p)
    with that have "update_product fo pid p f0 = (r, f1)" by (simp add: put_products_def)
    from constraints_updated[OF assms Inr this] show ?thesis .
  qed
  show "list_all Product_constraints (load_products f1)" if "patch_products fo pid body f0 = (r, f1)"
  proof (cases "Update_Product_validate body")
    case (Inl e)
    with that assms show ?thesis by (simp add: patch_products_def)
  next
    case (Inr p)
    with that have "update_product fo pid p f0 = (r, f1)"
      by (simp add: patch_products_def patch_product_eq)
    from constraints_updated[OF assms Inr this] show ?thesis .
  qed
qed

text \<open>
  C2, as the code has it. The body of an update is validated before the handler runs:
  a body that fails the validator (a discount outside 0..100, say) makes PUT and PATCH
  fail with the validation error, and the file is left as it was. The merged record is
  not validated again. Where every stored record satisfies the constraints of \<^verbatim>\<open>Product\<close>
  (as in every state the service reaches, \<open>reachable_constraints\<close>), every record of the
  file an update leaves satisfies them too; so there, a merge that would break a
  constraint comes from a body the validator rejects, and changes nothing.
\<close>

theorem update_validates_the_payload:
  assumes "list_all Product_constraints (load_products f0)"
  shows "(Update_Product_validate body = Inl e
            \<longrightarrow> put_products fo pid body f0 = (Inl e, f0)
                \<and> patch_products fo pid body f0 = (Inl e, f0))
         \<and> (put_products fo pid body f0 = (r, f1)
            \<longrightarrow> list_all Product_constraints (load_products f1))
         \<and> (patch_products fo pid body f0 = (r, f1)
            \<longrightarrow> list_all Product_constraints (load_products f1))
         \<and> (load_products f0 = R # rest \<and> Update_Product_model_dump fo body = Inr d
              \<and> \<not> Product_constraints (merge_items R d)
            \<longrightarrow> (\<exists>err. Update_Product_validate body = Inl err
                       \<and> put_products fo pid body f0 = (Inl err, f0)
                       \<and> patch_products fo pid body f0 = (Inl err, f0)))"
proof (intro conjI impI)
  assume "Update_Product_validate body = Inl e"
  then show "put_products fo pid body f0 = (Inl e, f0)"
    and "patch_products fo pid body f0 = (Inl e, f0)"
    by (simp_all add: put_products_rejected)
next
  assume "put_products fo pid body f0 = (r, f1)"
  then show "list_all Product_constraints (load_products f1)"
    using constraints_put(1)[OF assms] by blast
next
  assume "patch_products fo pid body f0 = (r, f1)"
  then show "list_all Product_constraints (load_products f1)"
    using constraints_put(2)[OF assms] by blast
next
  assume a: "load_products f0 = R # rest \<and> Update_Product_model_dump fo body = Inr d
             \<and> \<not> Product_constraints (merge_items R d)"
  then have R: "Product_constraints R" using assms by simp
  show "\<exists>err. Update_Product_validate body = Inl err
              \<and> put_products fo pid body f0 = (Inl err, f0)
              \<and> patch_products fo pid body f0 = (Inl err, f0)"
  proof (cases "Update_Product_validate body")
    case (Inl err)
    then show ?thesis by (simp add: put_products_rejected)
  next
    case (Inr p)
    from merge_preserves_constraints[OF R Inr] a show ?thesis by blast
  qed
qed

lemma stored_mouse_constraints: "Product_constraints stored_mouse"
  using created_constraints[OF mouse_valid, of "''2024-05-01T10:00:00'' @ ''Z''"
      "''7c9e6679-7425-40de-944b-e07fc1f90ae7''" exact_ops]
  by (simp only: mouse_dump)

lemma overdiscount_rejected:
  "Update_Product_validate overdiscount = Inl (RequestValidationError [[''body'']])"
  by (simp add: Update_Product_validate_def Update_Product_checks_def overdiscount_def
      reprice_def violations_def under_def opt_ok_def attr_def Dimensions_cm_checks_def
      check_discount_def Let_def)

lemma overdiscount_dump:
  "Update_Product_model_dump exact_ops overdiscount =
     Inr [(''id'', JStr ''7c9e6679-7425-40de-944b-e07fc1f90ae7''),
          (''name'', JNull),
          (''category'', JNull),
          (''price'', JNum 50),
          (''currency'', JNull),
          (''discount_percent'', JNum 150),
          (''stock'', JNull),
          (''dimensions_cm'', JObj [(''length'', JNum 10), (''width'', JNum 6), (''height'', JNum 3)]),
          (''seller'', JNull),
          (''created_at'', JNull),
          (''discounted_price'', JNum (- 25)),
          (''volume_cm3'', JNum 180)]"
  by (simp add: Update_Product_model_dump_def Update_Product_fields_def overdiscount_def
      reprice_def given_def
      json_opt_def Update_Product_discounted_price_def Update_Product_volume_cm3_def attr_def
      exact_ops_def round_half_even_def Dimensions_cm_model_dump_def Let_def)

lemma discount_150_breaks:
  "map_of X ''discount_percent'' = Some (JNum 150) \<Longrightarrow> \<not> Product_constraints X"
  by (simp add: Product_constraints_def optional_def num_of_def)

theorem update_validates_the_payload_witness:
  "list_all Product_constraints (load_products (Some [stored_mouse]))
   \<and> Update_Product_validate overdiscount = Inl (RequestValidationError [[''body'']])
   \<and> load_products (Some [stored_mouse]) = stored_mouse # []
   \<and> Update_Product_model_dump exact_ops overdiscount =
        Inr [(''id'', JStr ''7c9e6679-7425-40de-944b-e07fc1f90ae7''),
             (''name'', JNull),
             (''category'', JNull),
             (''price'', JNum 50),
             (''currency'', JNull),
             (''discount_percent'', JNum 150),
             (''stock'', JNull),
             (''dimensions_cm'',
                JObj [(''length'', JNum 10), (''width'', JNum 6), (''height'', JNum 3)]),
             (''seller'', JNull),
             (''created_at'', JNull),
             (''discounted_price'', JNum (- 25)),
             (''volume_cm3'', JNum 180)]
   \<and> \<not> Product_constraints
         (merge_items stored_mouse
            [(''id'', JStr ''7c9e6679-7425-40de-944b-e07fc1f90ae7''),
             (''name'', JNull),
             (''category'', JNull),
             (''price'', JNum 50),
             (''currency'', JNull),
             (''discount_percent'', JNum 150),
             (''stock'', JNull),
             (''dimensions_cm'',
                JObj [(''length'', JNum 10), (''width'', JNum 6), (''height'', JNum 3)]),
             (''seller'', JNull),
             (''created_at'', JNull),
             (''discounted_price'', JNum (- 25)),
             (''volume_cm3'', JNum 180)])
   \<and> put_products exact_ops ''7c9e6679-7425-40de-944b-e07fc1f90ae7'' overdiscount
        (Some [stored_mouse]) = (Inl (RequestValidationError [[''body'']]), Some [stored_mouse])
   \<and> patch_products exact_ops ''7c9e6679-7425-40de-944b-e07fc1f90ae7'' overdiscount
        (Some [stored_mouse]) = (Inl (RequestValidationError [[''body'']]), Some [stored_mouse])"
proof -
  have c: "list_all Product_constraints (load_products (Some [stored_mouse]))"
    by (simp add: load_products_def stored_mouse_constraints)
  have l: "load_products (Some [stored_mouse]) = stored_mouse # []"
    by (simp add: load_products_def)
  have n: "\<not> Product_constraints
         (merge_items stored_mouse
            [(''id'', JStr ''7c9e6679-7425-40de-944b-e07fc1f90ae7''),
             (''name'', JNull),
             (''category'', JNull),
             (''price'', JNum 50),
             (''currency'', JNull),
             (''discount_percent'', JNum 150),
             (''stock'', JNull),
             (''dimensions_cm'',
                JObj [(''length'', JNum 10), (''width'', JNum 6), (''height'', JNum 3)]),
             (''seller'', JNull),
             (''created_at'', JNull),
             (''discounted_price'', JNum (- 25)),
             (''volume_cm3'', JNum 180)])"
    by (rule discount_150_breaks) (simp add: stored_mouse_def)
  from update_validates_the_payload[OF c, of overdiscount "RequestValidationError [[''body'']]"
      exact_ops "''7c9e6679-7425-40de-944b-e07fc1f90ae7''"]
  have "put_products exact_ops ''7c9e6679-7425-40de-944b-e07fc1f90ae7'' overdiscount
        (Some [stored_mouse]) = (Inl (RequestValidationError [[''body'']]), Some [stored_mouse])"
    "patch_products exact_ops ''7c9e6679-7425-40de-944b-e07fc1f90ae7'' overdiscount
        (Some [stored_mouse]) = (Inl (RequestValidationError [[''body'']]), Some [stored_mouse])"
    using overdiscount_rejected by blast+
  then show ?thesis using c l n overdiscount_rejected overdiscount_dump by blast
qed

text \<open>
  C2, as the claim states it, fails for a stored record that already breaks a
  constraint: merged with the valid update of the price, the record with the discount of
  150 percent still breaks it, and the update succeeds and writes the merged record.
\<close>

theorem unvalidated_merge_counterexample:
  "Update_Product_validate reprice = Inr reprice
   \<and> load_products (Some [mispriced_mouse]) = [mispriced_mouse]
   \<and> put_products exact_ops ''7c9e6679-7425-40de-944b-e07fc1f90ae7'' reprice
        (Some [mispriced_mouse])
       = (Inr (AList.update ''discount_percent'' (JNum 150) repriced_mouse),
          Some [AList.update ''discount_percent'' (JNum 150) repriced_mouse])
   \<and> \<not> Product_constraints (AList.update ''discount_percent'' (JNum 150) repriced_mouse)
   \<and> AList.update ''discount_percent'' (JNum 150) repriced_mouse \<noteq> mispriced_mouse"
proof -
  have "put_products exact_ops ''7c9e6679-7425-40de-944b-e07fc1f90ae7'' reprice
        (Some [mispriced_mouse])
       = (Inr (AList.update ''discount_percent'' (JNum 150) repriced_mouse),
          Some [AList.update ''discount_percent'' (JNum 150) repriced_mouse])"
    by (simp add: put_products_def reprice_valid update_product_def reprice_dump
        change_product_nonempty mispriced_mouse_def stored_mouse_def repriced_mouse_def)
  moreover have "\<not> Product_constraints (AList.update ''discount_percent'' (JNum 150) repriced_mouse)"
    by (rule discount_150_breaks) (simp add: update_conv')
  moreover have "AList.update ''discount_percent'' (JNum 150) repriced_mouse \<noteq> mispriced_mouse"
    by (simp add: mispriced_mouse_def stored_mouse_def repriced_mouse_def)
  ultimately show ?thesis
    using reprice_valid by (simp add: load_products_def)
qed

section \<open>Derived fields in binary64 arithmetic\<close>












end
